theory Spec2Isabelle
  imports Main "HOL-Library.AList"
begin

section \<open>Browser acquisition of RPA/Browser.py\<close>

text \<open>
  The theory embeds the browser-acquisition code of the class \<open>Browser\<close>
  (file \<open>src/RPA/Browser.py\<close>): the candidate ordering, the construction of the
  driver options, the version detection, the driver reconciliation and the loop over the
  candidates with its three launch methods.

  The collaborators of the class are not part of the repository; they are fields of the
  record \<open>env\<close>: the platform name, the table \<open>AVAILABLE_DRIVERS\<close> of the
  driver-management library, the environment variables, the shell that runs a probe command,
  the driver download and SeleniumLibrary's \<open>create_webdriver\<close>.

  What the code changes is the record \<open>world\<close>: the driver files on disk and the
  list of events the code has produced so far (log records, probe commands launched, downloads,
  launch attempts, page loads), oldest first.
\<close>

subsection \<open>Strings\<close>

text \<open>\<open>str.lower\<close> on the ASCII letters.\<close>

definition lower_char :: "char \<Rightarrow> char" where
  "lower_char c =
     (case map_of (zip ''ABCDEFGHIJKLMNOPQRSTUVWXYZ'' ''abcdefghijklmnopqrstuvwxyz'') c of
        None \<Rightarrow> c
      | Some d \<Rightarrow> d)"

definition lower :: "string \<Rightarrow> string" where
  "lower s = map lower_char s"

text \<open>\<open>', '.join(xs)\<close>.\<close>

fun join :: "string \<Rightarrow> string list \<Rightarrow> string" where
  "join sep [] = []"
| "join sep [x] = x"
| "join sep (x # y # ys) = x @ sep @ join sep (y # ys)"

text \<open>Python's truth value of a string-or-\<open>False\<close> result: \<open>None\<close> stands for
  \<open>False\<close>, and the empty string is false as well.\<close>

definition truthy :: "string option \<Rightarrow> bool" where
  "truthy v = (case v of None \<Rightarrow> False | Some s \<Rightarrow> s \<noteq> [])"

subsection \<open>Data\<close>

text \<open>The object \<open>selenium.webdriver.ChromeOptions\<close>, as far as the code fills it:
  the command-line arguments and the experimental options, in insertion order.\<close>

datatype exp_value = Exp_list "string list" | Exp_dict "(string \<times> string) list"

record chrome_options =
  arguments :: "string list"
  experimental_options :: "(string \<times> exp_value) list"

definition new_options :: chrome_options where
  "new_options = \<lparr>arguments = [], experimental_options = []\<rparr>"

definition add_argument :: "string \<Rightarrow> chrome_options \<Rightarrow> chrome_options" where
  "add_argument a opts = opts\<lparr>arguments := arguments opts @ [a]\<rparr>"

definition add_experimental_option ::
  "string \<Rightarrow> exp_value \<Rightarrow> chrome_options \<Rightarrow> chrome_options" where
  "add_experimental_option k v opts =
     opts\<lparr>experimental_options := AList.update k v (experimental_options opts)\<rparr>"

text \<open>The dictionary \<open>driver_options\<close>: keyword arguments for the launcher.\<close>

datatype py_value = Str string | Str_list "string list" | Options "chrome_options option"

type_synonym driver_options = "(string \<times> py_value) list"

text \<open>A driver manager of the \<open>webdrivermanager\<close> library.\<close>

record driver_manager =
  driver_filename :: string
  link_path :: string

datatype level = DEBUG | INFO | WARNING | ERROR

text \<open>
  A log record carries its level and its message; a value interpolated into the message is
  rendered when it is a string and left as its placeholder otherwise.
  \<open>Launch b opts exe r\<close> is a call of \<open>create_webdriver\<close> for browser \<open>b\<close> with
  keyword arguments \<open>opts\<close> and the executable path \<open>exe\<close> (\<open>None\<close>: no
  \<open>executable_path\<close> argument); \<open>r\<close> is the session index, or \<open>None\<close> when the
  call raised \<open>WebDriverException\<close>.
  \<open>Download dm dir v ok\<close> is a call of \<open>download_and_install\<close> on a manager rooted at
  \<open>dir\<close> with version \<open>v\<close> (\<open>None\<close>: the latest); \<open>ok\<close> is false when it raised
  \<open>RuntimeError\<close>.
\<close>

datatype event =
    Log level string
  | Run_command string
  | Download driver_manager string "string option" bool
  | Launch string driver_options "string option" "int option"
  | Go_to string

record world =
  files :: "string list"
  events :: "event list"

record env =
  platform_system :: string
  AVAILABLE_DRIVERS :: "string \<Rightarrow> driver_manager option"
  getenv :: "string \<Rightarrow> string option"
  gettempdir :: string
  debug_enabled :: bool
  path_div :: "string \<Rightarrow> string \<Rightarrow> string"
  popen_output :: "string list \<Rightarrow> string \<Rightarrow> string option"
  download_and_install ::
    "string list \<Rightarrow> driver_manager \<Rightarrow> string \<Rightarrow> string option \<Rightarrow> string list option"
  create_webdriver ::
    "world \<Rightarrow> string \<Rightarrow> driver_options \<Rightarrow> string option \<Rightarrow> int option"

text \<open>
  \<open>path_div a b\<close> is the text of \<open>Path(a) / b\<close> as \<open>pathlib\<close> computes it on the
  platform, with its separator and its normalisation of the parts.
  \<open>popen_output fs cmd\<close> is \<open>str(output).strip()\<close> of the shell command \<open>cmd\<close> run
  on the files \<open>fs\<close>, or \<open>None\<close> when starting it raises \<open>FileNotFoundError\<close>.
  \<open>download_and_install fs dm dir v\<close> is the new list of files, or \<open>None\<close> when the
  download raises \<open>RuntimeError\<close>. The launcher sees the whole world, so that its outcome
  may depend on the attempts made before.
\<close>

datatype error = KeyError string | BrowserNotFoundError

text \<open>\<open>str(Path(a) / b)\<close>. A path never prints as the empty string: \<open>pathlib\<close> prints
  the empty path as a dot.\<close>

definition path_join :: "env \<Rightarrow> string \<Rightarrow> string \<Rightarrow> string" where
  "path_join e a b = (if path_div e a b = [] then ''.'' else path_div e a b)"

definition log :: "level \<Rightarrow> string \<Rightarrow> world \<Rightarrow> world" where
  "log l m w = w\<lparr>events := events w @ [Log l m]\<rparr>"

definition emit :: "event \<Rightarrow> world \<Rightarrow> world" where
  "emit e w = w\<lparr>events := events w @ [e]\<rparr>"

subsection \<open>Class constants\<close>

definition AUTOMATIC_BROWSER_SELECTION :: string where
  "AUTOMATIC_BROWSER_SELECTION = ''AUTO''"

definition AVAILABLE_OPTIONS :: "(string \<times> string) list" where
  "AVAILABLE_OPTIONS = [(''chrome'', ''ChromeOptions'')]"

definition CHROMEDRIVER_VERSIONS :: "(string \<times> string) list" where
  "CHROMEDRIVER_VERSIONS =
     [(''81'', ''81.0.4044.69''),
      (''80'', ''80.0.3987.106''),
      (''79'', ''79.0.3945.36'')]"

subsection \<open>Candidate ordering\<close>

definition get_preferable_browser_order :: "env \<Rightarrow> string list" where
  "get_preferable_browser_order e =
     (let preferable_browser_order = [''Chrome''] in
      if platform_system e = ''Windows'' then
        preferable_browser_order @ [''Firefox'', ''Edge'', ''IE'', ''Opera'']
      else if platform_system e = ''Linux'' then
        preferable_browser_order @ [''Firefox'', ''Opera'']
      else if platform_system e = ''Darwin'' then
        preferable_browser_order @ [''Safari'', ''Firefox'', ''Opera'']
      else
        preferable_browser_order @ [''Firefox''])"

text \<open>The argument \<open>browser_selection\<close> is a browser name or a list of names.\<close>

datatype selection = Name string | Names "string list"

fun get_browser_order :: "env \<Rightarrow> selection \<Rightarrow> string list" where
  "get_browser_order e (Name s) =
     (if s = AUTOMATIC_BROWSER_SELECTION then get_preferable_browser_order e else [s])"
| "get_browser_order e (Names xs) = xs"

subsection \<open>Driver options\<close>

definition set_default_options :: "chrome_options \<Rightarrow> chrome_options" where
  "set_default_options options =
     add_argument ''--no-sandbox''
       (add_argument ''--remote-debugging-port=12922''
         (add_argument ''--allow-running-insecure-content''
           (add_argument ''--disable-web-security'' options)))"

text \<open>The options object is changed in place by the source; the model returns it.\<close>

definition set_headless_options ::
  "string \<Rightarrow> chrome_options option \<Rightarrow> world \<Rightarrow> chrome_options option \<times> world" where
  "set_headless_options browser options w =
     (if lower browser = ''safari'' then
        (options,
         log INFO (''Safari does not support headless mode. '' @
                   ''https://github.com/SeleniumHQ/selenium/issues/5985'') w)
      else
        (case options of
           None \<Rightarrow> (options, w)
         | Some opts \<Rightarrow>
             (Some (add_argument ''--disable-dev-shm-usage''
                     (add_argument ''--disable-gpu''
                       (add_argument ''--headless'' opts))),
              log INFO ''Setting headless mode'' w)))"

definition set_user_profile ::
  "env \<Rightarrow> chrome_options \<Rightarrow> world \<Rightarrow> chrome_options \<times> world" where
  "set_user_profile e options w =
     (case getenv e ''RPA_CHROME_USER_PROFILE_DIR'' of
        None \<Rightarrow>
          (options,
           log WARNING (''environment variable '' @ [CHR 0x22] @ ''RPA_CHROME_USER_PROFILE_DIR'' @
                        [CHR 0x22] @ '' '' @
                        ''has not been set, cannot set user profile'') w)
      | Some user_profile_dir \<Rightarrow>
          (add_argument (''--local-sync-backend-dir='' @ [CHR 0x27] @ user_profile_dir @ [CHR 0x27])
             (add_argument ''--enable-local-sync-backend''
               (add_argument (''--user-data-dir='' @ [CHR 0x27] @ user_profile_dir @ [CHR 0x27])
                  options)),
           w))"

text \<open>
  \<open>set_driver_options\<close>, statement by statement. The three local variables that the
  source updates are \<open>browser_options\<close>, \<open>driver_options\<close> and the world.
\<close>

definition set_driver_options ::
  "env \<Rightarrow> string \<Rightarrow> bool \<Rightarrow> bool \<Rightarrow> bool \<Rightarrow> world \<Rightarrow> driver_options \<times> world" where
  "set_driver_options e browser use_profile headless maximized w =
     (let browser_option_class = map_of AVAILABLE_OPTIONS (lower browser) in
      case browser_option_class of
        None \<Rightarrow> ([], w)
      | Some cls \<Rightarrow>
          (let (browser_options, w1) =
                 (if lower browser \<in> set (map fst AVAILABLE_OPTIONS)
                  then (Some new_options, log DEBUG ''{type(browser_options)}'' w)
                  else (None, w));
               (browser_options, driver_options) =
                 (case browser_options of
                    Some opts \<Rightarrow>
                      if lower browser = ''chrome'' then
                        (Some (add_experimental_option ''prefs''
                                 (Exp_dict [(''safebrowsing.enabled'', ''true'')])
                                 (add_experimental_option ''excludeSwitches''
                                    (Exp_list [''enable-logging''])
                                    (set_default_options opts))),
                         if debug_enabled e then
                           AList.update ''service_args'' (Str_list [''--verbose''])
                             (AList.update ''service_log_path'' (Str ''chromedriver.log'') [])
                         else [])
                      else (browser_options, [])
                  | None \<Rightarrow> (browser_options, []));
               (browser_options, w2) =
                 (if headless then set_headless_options browser browser_options w1
                  else (browser_options, w1));
               (browser_options, w3) =
                 (case browser_options of
                    Some opts \<Rightarrow>
                      if maximized then
                        (Some (add_argument ''--start-maximized'' opts),
                         log INFO ''Setting maximized mode'' w2)
                      else (browser_options, w2)
                  | None \<Rightarrow> (browser_options, w2));
               (browser_options, w4) =
                 (case browser_options of
                    Some opts \<Rightarrow>
                      if use_profile then
                        (let (opts', w') = set_user_profile e opts w3 in (Some opts', w'))
                      else (browser_options, w3)
                  | None \<Rightarrow> (browser_options, w3));
               driver_options =
                 (if browser_options \<noteq> None \<and> lower browser \<noteq> ''chrome''
                  then AList.update ''options'' (Options browser_options) driver_options
                  else AList.update ''chrome_options'' (Options browser_options) driver_options)
           in (driver_options, w4)))"

subsection \<open>The version pattern\<close>

text \<open>
  \<open>CHROME_VERSION_PATTERN\<close> is \<open>(\d+)(\.\d+\.\d+.\d+)\<close>: a sequence of the three
  kinds of atoms below. Note the last dot of the pattern, which is not escaped and matches
  any character but a newline.

  \<open>re.search\<close> is a backtracking matcher. \<open>match_atom a s\<close> lists every way the atom
  can match a prefix of \<open>s\<close>, as the matched text with the rest, in the order the matcher
  tries them (\<open>\d+\<close> is greedy: the longest run first). \<open>match_seq\<close> does so for a
  sequence of atoms and gives the text matched by each atom; the first element of its result
  is the match \<open>re\<close> reports at that position. \<open>re_search\<close> tries the positions from
  left to right.
\<close>

datatype atom = Digits | Lit char | Any_char

definition is_digit :: "char \<Rightarrow> bool" where
  "is_digit c = (c \<in> set ''0123456789'')"

fun digit_runs :: "string \<Rightarrow> (string \<times> string) list" where
  "digit_runs [] = []"
| "digit_runs (c # cs) =
     (if is_digit c
      then map (\<lambda>(d, r). (c # d, r)) (digit_runs cs) @ [([c], cs)]
      else [])"

fun match_atom :: "atom \<Rightarrow> string \<Rightarrow> (string \<times> string) list" where
  "match_atom Digits s = digit_runs s"
| "match_atom (Lit c) [] = []"
| "match_atom (Lit c) (x # xs) = (if x = c then [([x], xs)] else [])"
| "match_atom Any_char [] = []"
| "match_atom Any_char (x # xs) = (if x = CHR 0x0A then [] else [([x], xs)])"

fun match_seq :: "atom list \<Rightarrow> string \<Rightarrow> (string list \<times> string) list" where
  "match_seq [] s = [([], s)]"
| "match_seq (a # as) s =
     concat (map (\<lambda>(p, r). map (\<lambda>(ps, r'). (p # ps, r')) (match_seq as r)) (match_atom a s))"

fun re_search :: "atom list \<Rightarrow> string \<Rightarrow> string list option" where
  "re_search pat [] =
     (case match_seq pat [] of [] \<Rightarrow> None | (ps, r) # _ \<Rightarrow> Some ps)"
| "re_search pat (c # cs) =
     (case match_seq pat (c # cs) of [] \<Rightarrow> re_search pat cs | (ps, r) # _ \<Rightarrow> Some ps)"

definition CHROME_VERSION_PATTERN :: "atom list" where
  "CHROME_VERSION_PATTERN =
     [Digits, Lit CHR ''.'', Digits, Lit CHR ''.'', Digits, Any_char, Digits]"

text \<open>\<open>group(1)\<close> of the pattern is its first atom, \<open>group(0)\<close> the whole match.\<close>

definition group1 :: "string list \<Rightarrow> string" where
  "group1 ps = (case ps of [] \<Rightarrow> [] | p # _ \<Rightarrow> p)"

definition group0 :: "string list \<Rightarrow> string" where
  "group0 ps = concat ps"

subsection \<open>Version detection\<close>

definition OS_CMDS :: "(string \<times> string list) list" where
  "OS_CMDS =
     [(''Windows'',
        [''reg query '' @ [CHR 0x22] @ ''HKEY_CURRENT_USER'' @ [CHR 0x5C] @ ''Software'' @
           [CHR 0x5C] @ ''Google'' @ [CHR 0x5C] @ ''Chrome'' @ [CHR 0x5C] @ ''BLBeacon'' @
           [CHR 0x22] @ '' /v version'',
         ''reg query '' @ [CHR 0x22] @ ''HKEY_CURRENT_USER'' @ [CHR 0x5C] @ ''Software'' @
           [CHR 0x5C] @ ''Chromium'' @ [CHR 0x5C] @ ''BLBeacon'' @
           [CHR 0x22] @ '' /v version'']),
      (''Linux'',
        [''chromium --version'',
         ''chromium-browser --version'',
         ''google-chrome --version'']),
      (''Darwin'',
        [''/Applications/Google'' @ [CHR 0x5C] @ '' Chrome.app/Contents/MacOS/Google'' @
           [CHR 0x5C] @ '' Chrome --version'',
         ''/Applications/Google'' @ [CHR 0x5C] @ '' Chrome.app/Contents/MacOS/Google'' @
           [CHR 0x5C] @ '' Chrome --version'',
         ''/Applications/Chromium.app/Contents/MacOS/Chromium --version''])]"

definition run_command_return_output ::
  "env \<Rightarrow> string \<Rightarrow> world \<Rightarrow> string option \<times> world" where
  "run_command_return_output e command w =
     (case popen_output e (files w) command of
        Some output \<Rightarrow> (Some output, emit (Run_command command) w)
      | None \<Rightarrow>
          (None, log DEBUG (''Command '' @ [CHR 0x22] @ command @ [CHR 0x22] @ '' not found'')
                   (emit (Run_command command) w)))"

text \<open>The loop of \<open>detect_chrome_version\<close> over the commands of the platform. A version
  result is the stable driver version of the major version found, or \<open>None\<close> for
  \<open>False\<close>.\<close>

fun detect_loop :: "env \<Rightarrow> string list \<Rightarrow> world \<Rightarrow> string option \<times> world" where
  "detect_loop e [] w = (None, w)"
| "detect_loop e (cmd # cmds) w =
     (let (output, w1) = run_command_return_output e cmd w in
      case output of
        None \<Rightarrow> detect_loop e cmds w1
      | Some out \<Rightarrow>
          if out = [] then detect_loop e cmds w1
          else
            (case re_search CHROME_VERSION_PATTERN out of
               None \<Rightarrow> detect_loop e cmds w1
             | Some version \<Rightarrow>
                 (let major = group1 version;
                      detailed = group0 version;
                      w2 = log INFO (''Detected Chrome major version is: '' @ detailed) w1
                  in (map_of CHROMEDRIVER_VERSIONS major, w2))))"

definition detect_chrome_version ::
  "env \<Rightarrow> world \<Rightarrow> (error \<times> world) + (string option \<times> world)" where
  "detect_chrome_version e w =
     (case map_of OS_CMDS (platform_system e) of
        None \<Rightarrow> Inl (KeyError (platform_system e), w)
      | Some CMDS \<Rightarrow> Inr (detect_loop e CMDS w))"

definition get_installed_chromedriver_version ::
  "env \<Rightarrow> string \<Rightarrow> world \<Rightarrow> string option \<times> world" where
  "get_installed_chromedriver_version e driver_executable_path w =
     (let (output, w1) = run_command_return_output e driver_executable_path w in
      case output of
        None \<Rightarrow> (None, w1)
      | Some out \<Rightarrow>
          if out = [] then (None, w1)
          else
            (case re_search CHROME_VERSION_PATTERN out of
               None \<Rightarrow> (None, w1)
             | Some version \<Rightarrow>
                 (let major = group1 version;
                      detailed = group0 version;
                      w2 = log INFO (''Detected chromedriver major version is: '' @ detailed) w1
                  in (map_of CHROMEDRIVER_VERSIONS major, w2))))"

subsection \<open>Driver reconciliation\<close>

text \<open>
  \<open>download_driver\<close>: the manager is built on the download directory; a version that is
  \<open>False\<close> (or empty) asks for the latest driver. A \<open>RuntimeError\<close> of the download
  leaves the \<open>try\<close> block before its debug record and is passed over.
\<close>

definition download_driver ::
  "env \<Rightarrow> driver_manager \<Rightarrow> string \<Rightarrow> string option \<Rightarrow> world \<Rightarrow> world" where
  "download_driver e dm_class download_dir version w =
     (let w1 = log INFO (''Downloading driver into: '' @ download_dir) w;
          dm = dm_class\<lparr>link_path := download_dir\<rparr>;
          v = (if truthy version then version else None)
      in case download_and_install e (files w1) dm download_dir v of
           Some fs \<Rightarrow>
             log DEBUG (driver_filename dm @ '' downloaded into '' @ download_dir)
               (emit (Download dm download_dir v True) (w1\<lparr>files := fs\<rparr>))
         | None \<Rightarrow> emit (Download dm download_dir v False) w1)"

definition set_driver_paths ::
  "env \<Rightarrow> driver_manager \<Rightarrow> bool \<Rightarrow> world \<Rightarrow> string \<times> string" where
  "set_driver_paths e dm download w =
     (let driver_executable = driver_filename dm;
          default_executable_path = path_join e (link_path dm) driver_executable;
          tempdir = (if truthy (getenv e ''TEMPDIR'')
                     then (case getenv e ''TEMPDIR'' of Some t \<Rightarrow> t | None \<Rightarrow> gettempdir e)
                     else gettempdir e);
          driver_tempdir = path_join e tempdir ''drivers'';
          temp_executable_path = path_join e driver_tempdir driver_executable;
          driver_executable_path =
            (if temp_executable_path \<in> set (files w) \<or> download
             then temp_executable_path
             else default_executable_path)
      in (driver_executable_path, driver_tempdir))"

definition check_chrome_and_driver_versions ::
  "env \<Rightarrow> string \<Rightarrow> string option \<Rightarrow> world \<Rightarrow> bool \<times> world" where
  "check_chrome_and_driver_versions e driver_ex_path browser_version w =
     (let (chromedriver_version, w1) =
            get_installed_chromedriver_version e (path_join e driver_ex_path '' --version'') w
      in if chromedriver_version = None then
           (True, log INFO ''Could not detect chromedriver version.'' w1)
         else if chromedriver_version \<noteq> browser_version then
           (True, log INFO ''Chrome and chromedriver versions are different.'' w1)
         else (False, w1))"

definition webdriver_init ::
  "env \<Rightarrow> string \<Rightarrow> bool \<Rightarrow> world \<Rightarrow> (error \<times> world) + (string option \<times> world)" where
  "webdriver_init e browser download w =
     (let w1 = log DEBUG (''Webdriver initialization for browser: '' @ [CHR 0x27] @ browser @
                          [CHR 0x27] @ ''. Download set to: {download}'') w
      in case detect_chrome_version e w1 of
           Inl err \<Rightarrow> Inl err
         | Inr (browser_version, w2) \<Rightarrow>
             (case AVAILABLE_DRIVERS e (lower browser) of
                None \<Rightarrow> Inr (None, w2)
              | Some dm_class \<Rightarrow>
                  (let w3 = log DEBUG ''Driver manager class: {dm_class}'' w2;
                       (driver_ex_path, driver_tempdir) = set_driver_paths e dm_class download w3;
                       w4 =
                         (if download then
                            if driver_ex_path \<notin> set (files w3) then
                              download_driver e dm_class driver_tempdir browser_version w3
                            else if lower browser = ''chrome'' then
                              (let (force_download, w') =
                                     check_chrome_and_driver_versions e driver_ex_path
                                       browser_version w3
                               in if force_download
                                  then download_driver e dm_class driver_tempdir browser_version w'
                                  else w')
                            else
                              log INFO (''Driver download skipped, because it already existed at '' @
                                        driver_ex_path) w3
                          else
                            log INFO (''Using already existing driver at: '' @ driver_ex_path) w3)
                   in Inr (Some driver_ex_path, w4))))"

subsection \<open>Launch attempts\<close>

text \<open>
  \<open>create_rpa_webdriver\<close> gives the session index, or \<open>None\<close> for \<open>False\<close> when the
  launcher raised \<open>WebDriverException\<close>.
\<close>

definition create_rpa_webdriver ::
  "env \<Rightarrow> string \<Rightarrow> driver_options \<Rightarrow> bool \<Rightarrow> world \<Rightarrow>
     (error \<times> world) + (int option \<times> world)" where
  "create_rpa_webdriver e browser options download w =
     (let w1 = log DEBUG ''Driver options for create_rpa_webdriver: {options}'' w
      in case webdriver_init e browser download w1 of
           Inl err \<Rightarrow> Inl err
         | Inr (executable, w2) \<Rightarrow>
             (let exe = (if truthy executable then executable else None);
                  index = create_webdriver e w2 browser options exe;
                  w3 = emit (Launch browser options exe index) w2
              in case index of
                   Some i \<Rightarrow> Inr (Some i, w3)
                 | None \<Rightarrow> Inr (None, log INFO ''Could not open driver: {err}'' w3)))"

text \<open>
  The loop of \<open>open_available_browser\<close> over the candidates. It ends at the first
  \<open>break\<close> with the index and \<open>selected_browser\<close>, a pair of the browser and the
  number of the method; \<open>None\<close> is the loop running to its end, where
  \<open>selected_browser\<close> is still \<open>None\<close>.
\<close>

fun browser_loop ::
  "env \<Rightarrow> bool \<Rightarrow> bool \<Rightarrow> bool \<Rightarrow> string list \<Rightarrow> world \<Rightarrow>
     (error \<times> world) + ((int \<times> string \<times> nat) option \<times> world)" where
  "browser_loop e use_profile headless maximized [] w = Inr (None, w)"
| "browser_loop e use_profile headless maximized (browser # rest) w =
     (let (options, w1) = set_driver_options e browser use_profile headless maximized w;
          w2 = log INFO ''Initializing webdriver with default options (method 1)'' w1
      in case create_rpa_webdriver e browser options False w2 of
           Inl err \<Rightarrow> Inl err
         | Inr (Some index, w3) \<Rightarrow> Inr (Some (index, browser, 1), w3)
         | Inr (None, w3) \<Rightarrow>
             (let w4 = log INFO ''Could not init webdriver using method 1. '' w3;
                  w5 = log INFO ''Initializing webdriver with downloaded driver (method 2)'' w4
              in case create_rpa_webdriver e browser options True w5 of
                   Inl err \<Rightarrow> Inl err
                 | Inr (Some index, w6) \<Rightarrow> Inr (Some (index, browser, 2), w6)
                 | Inr (None, w6) \<Rightarrow>
                     (let w7 = log INFO ''Could not init webdriver using method 2.'' w6
                      in if \<not> headless then
                           (let (options, w8) =
                                  set_driver_options e browser use_profile True maximized w7;
                                w9 = log INFO
                                       ''Initializing webdriver in headless mode (method 3)'' w8
                            in case create_rpa_webdriver e browser options True w9 of
                                 Inl err \<Rightarrow> Inl err
                               | Inr (Some index, w10) \<Rightarrow> Inr (Some (index, browser, 3), w10)
                               | Inr (None, w10) \<Rightarrow>
                                   browser_loop e use_profile headless maximized rest w10)
                         else browser_loop e use_profile headless maximized rest w7)))"

definition open_available_browser ::
  "env \<Rightarrow> string \<Rightarrow> bool \<Rightarrow> bool \<Rightarrow> bool \<Rightarrow> selection \<Rightarrow> world \<Rightarrow>
     (error \<times> world) + (int \<times> world)" where
  "open_available_browser e url use_profile headless maximized browser_selection w =
     (let preferable_browser_order = get_browser_order e browser_selection;
          w1 = log INFO (''Open Available Browser preferable browser selection order is: '' @
                         join '', '' preferable_browser_order) w
      in case browser_loop e use_profile headless maximized preferable_browser_order w1 of
           Inl err \<Rightarrow> Inl err
         | Inr (Some (index, selected_browser), w2) \<Rightarrow>
             (let w3 = log INFO (''Selected browser (method: {selected_browser[1]}) is: '' @
                                 fst selected_browser @ '', index: {index}'') w2
              in Inr (index, emit (Go_to url) w3))
         | Inr (None, w2) \<Rightarrow>
             Inl (BrowserNotFoundError,
                  log ERROR (''Unable to initialize webdriver ('' @
                             join '', '' preferable_browser_order @ '')'') w2))"

subsection \<open>Observations on a run\<close>

text \<open>
  What the properties below read off the events of a world: the launch attempts, the
  downloads, the probe commands, and the run reduced to its marks. A mark is either the
  record by which the loop announces one of its three methods, or a launch attempt with the
  browser and its outcome.
\<close>

fun is_launch :: "event \<Rightarrow> bool" where
  "is_launch (Launch b opts exe r) = True"
| "is_launch _ = False"

fun is_download :: "event \<Rightarrow> bool" where
  "is_download (Download dm dir v ok) = True"
| "is_download _ = False"

fun is_debug :: "event \<Rightarrow> bool" where
  "is_debug (Log l m) = (l = DEBUG)"
| "is_debug _ = False"

fun command_of :: "event \<Rightarrow> string option" where
  "command_of (Run_command c) = Some c"
| "command_of _ = None"

definition launches :: "world \<Rightarrow> event list" where
  "launches w = filter is_launch (events w)"

definition downloads :: "world \<Rightarrow> event list" where
  "downloads w = filter is_download (events w)"

definition commands :: "world \<Rightarrow> string list" where
  "commands w = List.map_filter command_of (events w)"

datatype mark = Method nat | Attempt string "int option"

fun mark_of :: "event \<Rightarrow> mark option" where
  "mark_of (Launch b opts exe r) = Some (Attempt b r)"
| "mark_of (Log l m) =
     (if l = INFO \<and> m = ''Initializing webdriver with default options (method 1)''
      then Some (Method 1)
      else if l = INFO \<and> m = ''Initializing webdriver with downloaded driver (method 2)''
      then Some (Method 2)
      else if l = INFO \<and> m = ''Initializing webdriver in headless mode (method 3)''
      then Some (Method 3)
      else None)"
| "mark_of _ = None"

definition marks :: "world \<Rightarrow> mark list" where
  "marks w = List.map_filter mark_of (events w)"

text \<open>\<open>attempted b w\<close>: some launch of browser \<open>b\<close> is among the events of \<open>w\<close>.\<close>

fun is_attempt_of :: "string \<Rightarrow> mark \<Rightarrow> bool" where
  "is_attempt_of b (Attempt b' r) = (b' = b)"
| "is_attempt_of b (Method k) = False"

definition attempted :: "string \<Rightarrow> world \<Rightarrow> bool" where
  "attempted b w = list_ex (is_attempt_of b) (marks w)"

text \<open>The marks of one candidate on which every attempt fails.\<close>

definition failed_round :: "bool \<Rightarrow> string \<Rightarrow> mark list" where
  "failed_round headless b =
     [Method 1, Attempt b None, Method 2, Attempt b None] @
     (if headless then [] else [Method 3, Attempt b None])"


text \<open>
  \<open>extends P w w'\<close>: the events of \<open>w'\<close> are those of \<open>w\<close> followed by events
  that satisfy \<open>P\<close>. From \<open>w\<close> to \<open>w'\<close> the run is \<open>quiet\<close> when the files are
  the same and the new events are probe commands and log records other than the
  announcements of a method; it is \<open>calm\<close> when no new event is a mark.
\<close>

definition extends :: "(event \<Rightarrow> bool) \<Rightarrow> world \<Rightarrow> world \<Rightarrow> bool" where
  "extends P w w' =
     (length (events w) \<le> length (events w') \<and>
      take (length (events w)) (events w') = events w \<and>
      list_all P (drop (length (events w)) (events w')))"

fun is_quiet :: "event \<Rightarrow> bool" where
  "is_quiet (Log l m) = (mark_of (Log l m) = None)"
| "is_quiet (Run_command c) = True"
| "is_quiet _ = False"

definition no_mark :: "event \<Rightarrow> bool" where
  "no_mark ev = (mark_of ev = None)"

definition quiet :: "world \<Rightarrow> world \<Rightarrow> bool" where
  "quiet w w' = (files w' = files w \<and> extends is_quiet w w')"

definition calm :: "world \<Rightarrow> world \<Rightarrow> bool" where
  "calm w w' = extends no_mark w w'"

text \<open>
  What both version readers take from the output of a command, written once: the major
  version (group 1 of the first match of the pattern) of an output that is not empty, and
  \<open>None\<close> when the command gave no output or the output has no match.
\<close>

definition parsed_major :: "string option \<Rightarrow> string option" where
  "parsed_major output =
     (case output of
        None \<Rightarrow> None
      | Some out \<Rightarrow>
          if out = [] then None
          else map_option group1 (re_search CHROME_VERSION_PATTERN out))"

subsection \<open>A machine to run the code on\<close>

text \<open>
  A Linux machine where only \<open>google-chrome\<close> is installed, at version 81.0.4044.92
  (the other commands print nothing, which \<open>str\<close> renders as \<open>b''\<close>); the driver
  managers of Chrome and Firefox link into \<open>/usr/local/bin\<close>; a download puts the
  driver into the download directory; the launcher fails on every browser but Firefox, and on
  Firefox it fails on the first attempt and opens session 1 afterwards.
\<close>

definition example_drivers :: "string \<Rightarrow> driver_manager option" where
  "example_drivers =
     map_of [(''chrome'', \<lparr>driver_filename = ''chromedriver'', link_path = ''/usr/local/bin''\<rparr>),
             (''firefox'', \<lparr>driver_filename = ''geckodriver'', link_path = ''/usr/local/bin''\<rparr>)]"

definition chrome_81_output :: string where
  "chrome_81_output =
     ''b'' @ [CHR 0x27] @ ''Google Chrome 81.0.4044.92 '' @ [CHR 0x5C] @ ''n'' @ [CHR 0x27]"

definition no_output :: string where
  "no_output = ''b'' @ [CHR 0x27, CHR 0x27]"

definition example_env :: env where
  "example_env =
     \<lparr>platform_system = ''Linux'',
      AVAILABLE_DRIVERS = example_drivers,
      getenv = (\<lambda>name. None),
      gettempdir = ''/tmp'',
      debug_enabled = False,
      path_div = (\<lambda>a b. a @ ''/'' @ b),
      popen_output =
        (\<lambda>fs cmd. if cmd = ''google-chrome --version'' then Some chrome_81_output
                   else Some no_output),
      download_and_install = (\<lambda>fs dm dir v. Some ((dir @ ''/'' @ driver_filename dm) # fs)),
      create_webdriver =
        (\<lambda>w b opts exe. if b = ''Firefox'' \<and> attempted ''Firefox'' w then Some 1 else None)\<rparr>"

definition example_world :: world where
  "example_world = \<lparr>files = [''/usr/local/bin/chromedriver''], events = []\<rparr>"

text \<open>The same machine with a launcher that always fails, and the same machine under a
  platform name that the table of probe commands does not have.\<close>

definition failing_env :: env where
  "failing_env = example_env\<lparr>create_webdriver := (\<lambda>w b opts exe. None)\<rparr>"

definition unknown_env :: env where
  "unknown_env = example_env\<lparr>platform_system := ''FreeBSD''\<rparr>"

text \<open>The world of a result, raised or returned.\<close>

fun result_world :: "(error \<times> world) + ('a \<times> world) \<Rightarrow> world" where
  "result_world (Inl (err, w)) = w"
| "result_world (Inr (x, w)) = w"

fun executable_of :: "event \<Rightarrow> string option" where
  "executable_of (Launch b opts exe r) = exe"
| "executable_of _ = None"

text \<open>
  A machine where the driver \<open>/tmp/drivers/chromedriver\<close>, once it is on disk, answers
  \<open>/tmp/drivers/chromedriver --version\<close> with version 81.0.4044.69, the driver that the
  table has for Chrome 81; any other command but \<open>google-chrome --version\<close> prints
  nothing. Then a world where that driver is on disk, a world where the driver at the link
  path is on disk as well, and a machine where every download raises \<open>RuntimeError\<close>.
\<close>

definition chromedriver_81_output :: string where
  "chromedriver_81_output =
     ''b'' @ [CHR 0x27] @ ''ChromeDriver 81.0.4044.69 (6813546031a4bc83f717a2ef7cd4ac6ec1199132)'' @
     [CHR 0x27]"

definition driver_81_env :: env where
  "driver_81_env =
     example_env\<lparr>popen_output :=
       (\<lambda>fs cmd. if cmd = ''google-chrome --version'' then Some chrome_81_output
                  else if cmd = ''/tmp/drivers/chromedriver --version'' \<and>
                          ''/tmp/drivers/chromedriver'' \<in> set fs
                  then Some chromedriver_81_output
                  else Some no_output)\<rparr>"

text \<open>
  A machine where \<open>chromium\<close> is a stub that prints a notice without any version, and
  \<open>google-chrome\<close> is installed at version 81.0.4044.92.
\<close>

definition stub_output :: string where
  "stub_output =
     ''b'' @ [CHR 0x27] @ ''Chromium is not installed, run: snap install chromium'' @
     [CHR 0x5C] @ ''n'' @ [CHR 0x27]"

definition stub_env :: env where
  "stub_env =
     example_env\<lparr>popen_output :=
       (\<lambda>fs cmd. if cmd = ''chromium --version'' then Some stub_output
                  else if cmd = ''google-chrome --version'' then Some chrome_81_output
                  else Some no_output)\<rparr>"

definition temp_driver_world :: world where
  "temp_driver_world = \<lparr>files = [''/tmp/drivers/chromedriver''], events = []\<rparr>"

definition both_drivers_world :: world where
  "both_drivers_world =
     \<lparr>files = [''/usr/local/bin/chromedriver'', ''/tmp/drivers/chromedriver''], events = []\<rparr>"

definition download_failing_env :: env where
  "download_failing_env = failing_env\<lparr>download_and_install := (\<lambda>fs dm dir v. None)\<rparr>"

text \<open>The example machine with a launcher that opens session 1 at once.\<close>

definition succeeding_env :: env where
  "succeeding_env = example_env\<lparr>create_webdriver := (\<lambda>w b opts exe. Some 1)\<rparr>"

section \<open>How the operations change the world\<close>

subsection \<open>Extensions of the event list\<close>

lemma extends_iff:
  "extends P w w' \<longleftrightarrow> (\<exists>evs. events w' = events w @ evs \<and> list_all P evs)"
proof
  assume "extends P w w'"
  then have "events w' = events w @ drop (length (events w)) (events w')"
    and "list_all P (drop (length (events w)) (events w'))"
    unfolding extends_def by (metis append_take_drop_id, simp)
  then show "\<exists>evs. events w' = events w @ evs \<and> list_all P evs" by blast
next
  assume "\<exists>evs. events w' = events w @ evs \<and> list_all P evs"
  then show "extends P w w'" by (auto simp: extends_def)
qed

lemma extends_refl: "extends P w w"
  by (simp add: extends_iff)

lemma extends_trans: "extends P a b \<Longrightarrow> extends P b c \<Longrightarrow> extends P a c"
  by (auto simp: extends_iff)

lemma extends_mono: "(\<And>ev. P ev \<Longrightarrow> Q ev) \<Longrightarrow> extends P w w' \<Longrightarrow> extends Q w w'"
  by (auto simp: extends_iff list_all_iff)

lemma extends_emit: "P ev \<Longrightarrow> extends P w (emit ev w)"
  by (simp add: extends_iff emit_def)

lemma extends_files_update: "extends P w (w'\<lparr>files := fs\<rparr>) = extends P w w'"
  by (simp add: extends_iff)

lemma is_quiet_no_mark: "is_quiet ev \<Longrightarrow> no_mark ev"
  by (cases ev) (simp_all add: no_mark_def)

lemma quiet_refl: "quiet w w"
  by (simp add: quiet_def extends_refl)

lemma quiet_trans: "quiet a b \<Longrightarrow> quiet b c \<Longrightarrow> quiet a c"
  by (auto simp: quiet_def intro: extends_trans)

lemma quiet_files: "quiet w w' \<Longrightarrow> files w' = files w"
  by (simp add: quiet_def)

lemma quiet_calm: "quiet w w' \<Longrightarrow> calm w w'"
  unfolding quiet_def calm_def by (blast intro: extends_mono is_quiet_no_mark)

lemma calm_refl: "calm w w"
  by (simp add: calm_def extends_refl)

lemma calm_trans: "calm a b \<Longrightarrow> calm b c \<Longrightarrow> calm a c"
  unfolding calm_def by (rule extends_trans)

lemma calm_marks: "calm w w' \<Longrightarrow> marks w' = marks w"
  by (auto simp: calm_def extends_iff marks_def map_filter_def
      no_mark_def list_all_iff filter_empty_conv)

lemma is_quiet_not_launch: "is_quiet ev \<Longrightarrow> \<not> is_launch ev"
  by (cases ev) simp_all

lemma is_quiet_not_download: "is_quiet ev \<Longrightarrow> \<not> is_download ev"
  by (cases ev) simp_all

lemma extends_filter:
  assumes "extends P w w'" and "\<And>ev. P ev \<Longrightarrow> \<not> Q ev"
  shows "filter Q (events w') = filter Q (events w)"
proof -
  from assms(1) obtain evs where evs: "events w' = events w @ evs" "list_all P evs"
    by (auto simp: extends_iff)
  from evs(2) assms(2) have "filter Q evs = []"
    by (simp add: filter_empty_conv list_all_iff)
  with evs(1) show ?thesis by simp
qed

lemma quiet_launches:
  assumes "quiet w w'"
  shows "launches w' = launches w"
proof -
  from assms have "extends is_quiet w w'" by (simp add: quiet_def)
  then show ?thesis
    unfolding launches_def by (rule extends_filter) (rule is_quiet_not_launch)
qed

lemma quiet_downloads:
  assumes "quiet w w'"
  shows "downloads w' = downloads w"
proof -
  from assms have "extends is_quiet w w'" by (simp add: quiet_def)
  then show ?thesis
    unfolding downloads_def by (rule extends_filter) (rule is_quiet_not_download)
qed

lemma quiet_log: "mark_of (Log l m) = None \<Longrightarrow> quiet w (log l m w)"
  by (simp add: quiet_def extends_iff log_def)

lemma quiet_run: "quiet w (emit (Run_command c) w)"
  by (simp add: quiet_def extends_iff emit_def)

lemma set_headless_options_quiet: "quiet w (snd (set_headless_options b opts w))"
  by (auto simp: set_headless_options_def quiet_refl intro!: quiet_log split: option.splits)

lemma set_user_profile_quiet: "quiet w (snd (set_user_profile e opts w))"
  by (auto simp: set_user_profile_def quiet_refl intro!: quiet_log split: option.splits)


lemma available_options_chrome:
  "map_of AVAILABLE_OPTIONS k = Some cls \<Longrightarrow> k = ''chrome''"
  by (simp add: AVAILABLE_OPTIONS_def split: if_splits)

lemma set_driver_options_quiet:
  "quiet w (snd (set_driver_options e b up h m w))"
proof (cases "map_of AVAILABLE_OPTIONS (lower b)")
  case None
  then show ?thesis by (simp add: set_driver_options_def quiet_refl)
next
  case (Some cls)
  then have chrome: "lower b = ''chrome''" by (rule available_options_chrome)
  have a: "quiet w (log DEBUG ''{type(browser_options)}'' w)"
    by (rule quiet_log) simp
  have b: "\<And>v. quiet v (log INFO ''Setting maximized mode'' v)"
    by (rule quiet_log) simp
  have c: "\<And>v. quiet v (log INFO ''Setting headless mode'' v)"
    by (rule quiet_log) simp
  have d: "\<And>v opts. quiet v (snd (set_user_profile e opts v))"
    by (rule set_user_profile_quiet)
  show ?thesis
    using Some chrome
    by (cases h; cases m; cases up)
      (auto simp: set_driver_options_def Let_def split_beta set_headless_options_def
        AVAILABLE_OPTIONS_def
        intro: quiet_trans [OF a] quiet_trans [OF a b] quiet_trans [OF a c]
          quiet_trans [OF quiet_trans [OF a c] b]
          quiet_trans [OF quiet_trans [OF a c] d] quiet_trans [OF a d]
          quiet_trans [OF quiet_trans [OF a b] d] 
          quiet_trans [OF quiet_trans [OF quiet_trans [OF a c] b] d] a)
qed

subsection \<open>Version detection and downloads\<close>

lemma run_command_quiet: "quiet w (snd (run_command_return_output e c w))"
  by (auto simp: run_command_return_output_def split: option.splits
      intro: quiet_run quiet_trans [OF quiet_run quiet_log])

lemma run_command_fst: "fst (run_command_return_output e c w) = popen_output e (files w) c"
  by (simp add: run_command_return_output_def split: option.splits)

lemma detect_loop_quiet: "quiet w (snd (detect_loop e cmds w))"
proof (induction cmds arbitrary: w)
  case Nil
  show ?case by (simp add: quiet_refl)
next
  case (Cons cmd cmds)
  obtain out w1 where r: "run_command_return_output e cmd w = (out, w1)"
    by (cases "run_command_return_output e cmd w")
  then have q1: "quiet w w1" using run_command_quiet [of w e cmd] by simp
  have q2: "quiet w1 (snd (detect_loop e cmds w1))" by (rule Cons.IH)
  have q3: "\<And>d. quiet w1 (log INFO (''Detected Chrome major version is: '' @ d) w1)"
    by (rule quiet_log) simp
  show ?case
    using r quiet_trans [OF q1 q2] quiet_trans [OF q1 q3]
    by (simp add: Let_def split: option.splits)
qed

lemma get_installed_quiet:
  "quiet w (snd (get_installed_chromedriver_version e p w))"
proof -
  obtain out w1 where r: "run_command_return_output e p w = (out, w1)"
    by (cases "run_command_return_output e p w")
  then have q1: "quiet w w1" using run_command_quiet [of w e p] by simp
  have q3: "\<And>d. quiet w1 (log INFO (''Detected chromedriver major version is: '' @ d) w1)"
    by (rule quiet_log) simp
  show ?thesis
    using r q1 quiet_trans [OF q1 q3]
    by (simp add: get_installed_chromedriver_version_def Let_def split: option.splits)
qed

lemma get_installed_fst:
  "fst (get_installed_chromedriver_version e p w) =
     Option.bind (parsed_major (popen_output e (files w) p)) (map_of CHROMEDRIVER_VERSIONS)"
proof -
  obtain out w1 where r: "run_command_return_output e p w = (out, w1)"
    by (cases "run_command_return_output e p w")
  then have "out = popen_output e (files w) p" using run_command_fst [of e p w] by simp
  with r show ?thesis
    by (simp add: get_installed_chromedriver_version_def parsed_major_def Let_def
        split: option.splits)
qed

lemma check_versions_quiet:
  "quiet w (snd (check_chrome_and_driver_versions e p bv w))"
proof -
  obtain cv w1 where r: "get_installed_chromedriver_version e (path_join e p '' --version'') w = (cv, w1)"
    by (cases "get_installed_chromedriver_version e (path_join e p '' --version'') w")
  then have q1: "quiet w w1" using get_installed_quiet [of w e "path_join e p '' --version''"] by simp
  have a: "quiet w1 (log INFO ''Could not detect chromedriver version.'' w1)"
    by (rule quiet_log) simp
  have b: "quiet w1 (log INFO ''Chrome and chromedriver versions are different.'' w1)"
    by (rule quiet_log) simp
  show ?thesis
    using r q1 quiet_trans [OF q1 a] quiet_trans [OF q1 b]
    by (simp add: check_chrome_and_driver_versions_def)
qed

lemma check_versions_fst:
  "fst (check_chrome_and_driver_versions e p bv w) =
     (fst (get_installed_chromedriver_version e (path_join e p '' --version'') w) = None \<or>
      fst (get_installed_chromedriver_version e (path_join e p '' --version'') w) \<noteq> bv)"
  by (cases "get_installed_chromedriver_version e (path_join e p '' --version'') w")
    (simp add: check_chrome_and_driver_versions_def)

lemma calm_log: "mark_of (Log l m) = None \<Longrightarrow> calm w (log l m w)"
  by (rule quiet_calm [OF quiet_log])

lemma download_driver_calm: "calm w (download_driver e dm dir v w)"
  by (auto simp: download_driver_def Let_def calm_def extends_iff log_def emit_def no_mark_def
      split: option.splits)

lemma download_driver_launches: "launches (download_driver e dm dir v w) = launches w"
  by (auto simp: download_driver_def Let_def launches_def log_def emit_def split: option.splits)

subsection \<open>Driver initialisation and one launch attempt\<close>

lemma no_mark_not_launch: "no_mark ev \<Longrightarrow> \<not> is_launch ev"
  by (cases ev) (simp_all add: no_mark_def)

lemma calm_launches:
  assumes "calm w w'"
  shows "launches w' = launches w"
  using assms unfolding calm_def launches_def
  by (rule extends_filter) (rule no_mark_not_launch)

lemma set_driver_paths_files:
  "files w = files v \<Longrightarrow> set_driver_paths e dm d w = set_driver_paths e dm d v"
  by (simp add: set_driver_paths_def)

lemma os_cmds_known:
  "(map_of OS_CMDS p \<noteq> None) = (p = ''Windows'' \<or> p = ''Linux'' \<or> p = ''Darwin'')"
  by (simp add: OS_CMDS_def)

lemma files_log [simp]: "files (log l m w) = files w"
  by (simp add: log_def)

lemma files_emit [simp]: "files (emit ev w) = files w"
  by (simp add: emit_def)

lemma files_detect_loop [simp]: "files (snd (detect_loop e cmds w)) = files w"
  by (rule quiet_files [OF detect_loop_quiet])

lemma calm_step_log: "calm w v \<Longrightarrow> mark_of (Log l m) = None \<Longrightarrow> calm w (log l m v)"
  by (blast intro: calm_trans calm_log)

lemma calm_step_detect: "calm w v \<Longrightarrow> calm w (snd (detect_loop e cmds v))"
  by (blast intro: calm_trans quiet_calm detect_loop_quiet)

lemma calm_step_check:
  "calm w v \<Longrightarrow> calm w (snd (check_chrome_and_driver_versions e p bv v))"
  by (blast intro: calm_trans quiet_calm check_versions_quiet)

lemma calm_step_download: "calm w v \<Longrightarrow> calm w (download_driver e dm dir ver v)"
  by (blast intro: calm_trans download_driver_calm)

lemmas calm_steps = calm_refl calm_step_log calm_step_detect calm_step_check calm_step_download

lemma webdriver_init_known:
  assumes known: "map_of OS_CMDS (platform_system e) = Some cmds"
  shows "\<exists>w'. webdriver_init e b d w =
            Inr (map_option (\<lambda>dm. fst (set_driver_paths e dm d w)) (AVAILABLE_DRIVERS e (lower b)), w')
          \<and> calm w w'"
proof (cases "AVAILABLE_DRIVERS e (lower b)")
  case None
  then show ?thesis
    using known
    apply (simp add: webdriver_init_def detect_chrome_version_def Let_def split_beta)
    apply (intro calm_steps)
    apply simp
    done
next
  case (Some dm)
  show ?thesis
    using known Some
    apply (simp add: webdriver_init_def detect_chrome_version_def Let_def split_beta set_driver_paths_def)
    apply (intro conjI impI calm_steps)
    apply simp_all
    done
qed

lemma path_join_truthy: "truthy (Some (path_join e a b))"
  by (simp add: truthy_def path_join_def)

lemma set_driver_paths_truthy: "truthy (Some (fst (set_driver_paths e dm d w)))"
  by (simp add: set_driver_paths_def Let_def path_join_truthy)

lemma marks_log:
  "marks (log l m w) = marks w @ (case mark_of (Log l m) of None \<Rightarrow> [] | Some k \<Rightarrow> [k])"
  by (simp add: marks_def log_def map_filter_def split: option.splits)

lemma marks_emit:
  "marks (emit ev w) = marks w @ (case mark_of ev of None \<Rightarrow> [] | Some k \<Rightarrow> [k])"
  by (simp add: marks_def emit_def map_filter_def split: option.splits)

lemma launches_log [simp]: "launches (log l m w) = launches w"
  by (simp add: launches_def log_def)

lemma launches_emit:
  "launches (emit ev w) = launches w @ (if is_launch ev then [ev] else [])"
  by (simp add: launches_def emit_def)

lemma create_rpa_webdriver_known:
  assumes known: "map_of OS_CMDS (platform_system e) = Some cmds"
  shows "\<exists>w2 w'. calm w w2 \<and>
           create_rpa_webdriver e b opts d w =
             Inr (create_webdriver e w2 b opts
                    (map_option (\<lambda>dm. fst (set_driver_paths e dm d w)) (AVAILABLE_DRIVERS e (lower b))), w') \<and>
           marks w' = marks w @
             [Attempt b (create_webdriver e w2 b opts
                    (map_option (\<lambda>dm. fst (set_driver_paths e dm d w)) (AVAILABLE_DRIVERS e (lower b))))] \<and>
           launches w' = launches w @
             [Launch b opts (map_option (\<lambda>dm. fst (set_driver_paths e dm d w)) (AVAILABLE_DRIVERS e (lower b)))
                (create_webdriver e w2 b opts
                    (map_option (\<lambda>dm. fst (set_driver_paths e dm d w)) (AVAILABLE_DRIVERS e (lower b))))]"
proof -
  define w1 where "w1 = log DEBUG ''Driver options for create_rpa_webdriver: {options}'' w"
  have q1: "quiet w w1" unfolding w1_def by (rule quiet_log) simp
  define exe where "exe = map_option (\<lambda>dm. fst (set_driver_paths e dm d w)) (AVAILABLE_DRIVERS e (lower b))"
  have exe1: "exe = map_option (\<lambda>dm. fst (set_driver_paths e dm d w1)) (AVAILABLE_DRIVERS e (lower b))"
    unfolding exe_def using set_driver_paths_files [OF quiet_files [OF q1], of e _ d]
    by (cases "AVAILABLE_DRIVERS e (lower b)") simp_all
  from webdriver_init_known [OF known, of b d w1]
  obtain w2 where wi: "webdriver_init e b d w1 = Inr (exe, w2)" and c12: "calm w1 w2"
    unfolding exe1 by blast
  have c02: "calm w w2" by (rule calm_trans [OF quiet_calm [OF q1] c12])
  have tr: "(if truthy exe then exe else None) = exe"
    unfolding exe_def by (cases "AVAILABLE_DRIVERS e (lower b)") (simp_all add: set_driver_paths_truthy)
  have wi': "webdriver_init e b d (log DEBUG ''Driver options for create_rpa_webdriver: {options}'' w)
      = Inr (exe, w2)"
    using wi by (simp only: w1_def)
  show ?thesis
    unfolding exe_def [symmetric]
    apply (rule exI [of _ w2])
    using c02 tr calm_marks [OF c02] calm_launches [OF c02]
    by (cases "create_webdriver e w2 b opts exe")
      (simp_all add: create_rpa_webdriver_def wi' Let_def marks_log marks_emit launches_emit)
qed

subsection \<open>A platform outside the table of probe commands\<close>

lemma lower_simps [simp]:
  "lower ''Firefox'' = ''firefox''" "lower ''Chrome'' = ''chrome''"
  by (simp_all add: lower_def lower_char_def)

lemma detect_unknown:
  "map_of OS_CMDS (platform_system e) = None \<Longrightarrow>
     detect_chrome_version e w = Inl (KeyError (platform_system e), w)"
  by (simp add: detect_chrome_version_def)

lemma webdriver_init_unknown:
  "map_of OS_CMDS (platform_system e) = None \<Longrightarrow>
     \<exists>w'. webdriver_init e b d w = Inl (KeyError (platform_system e), w') \<and> quiet w w'"
  by (auto simp: webdriver_init_def detect_unknown Let_def intro!: quiet_log)

lemma create_rpa_webdriver_unknown:
  assumes "map_of OS_CMDS (platform_system e) = None"
  shows "\<exists>w'. create_rpa_webdriver e b opts d w = Inl (KeyError (platform_system e), w') \<and>
           quiet w w'"
proof -
  let ?w1 = "log DEBUG ''Driver options for create_rpa_webdriver: {options}'' w"
  have q: "quiet w ?w1"
    by (rule quiet_log) simp
  from webdriver_init_unknown [OF assms, of b d ?w1]
  obtain w' where "webdriver_init e b d ?w1 = Inl (KeyError (platform_system e), w')"
    and "quiet ?w1 w'"
    by blast
  then show ?thesis using q
    by (auto simp: create_rpa_webdriver_def Let_def intro: quiet_trans)
qed

lemma browser_loop_unknown:
  assumes "map_of OS_CMDS (platform_system e) = None"
  shows "\<exists>w'. browser_loop e up h m (b # rest) w = Inl (KeyError (platform_system e), w') \<and>
           launches w' = launches w \<and> marks w' = marks w @ [Method 1]"
proof -
  obtain opts w1 where sdo: "set_driver_options e b up h m w = (opts, w1)"
    by (cases "set_driver_options e b up h m w")
  then have q1: "quiet w w1" using set_driver_options_quiet [of w e b up h m] by simp
  let ?w2 = "log INFO ''Initializing webdriver with default options (method 1)'' w1"
  from create_rpa_webdriver_unknown [OF assms, of b opts False ?w2]
  obtain w' where cr: "create_rpa_webdriver e b opts False ?w2 = Inl (KeyError (platform_system e), w')"
    and q2: "quiet ?w2 w'" by blast
  have "launches w' = launches w"
    using quiet_launches [OF q2] quiet_launches [OF q1] by simp
  moreover have "marks w' = marks w @ [Method 1]"
    using calm_marks [OF quiet_calm [OF q2]] calm_marks [OF quiet_calm [OF q1]]
    by (simp add: marks_log)
  ultimately show ?thesis using sdo cr by simp
qed

subsection \<open>The loop over the candidates\<close>

lemma attempt_fails:
  assumes known: "map_of OS_CMDS (platform_system e) = Some cmds"
    and fail: "\<And>v opts x. create_webdriver e v b opts x = None"
  shows "\<exists>w'. create_rpa_webdriver e b opts d w = Inr (None, w') \<and>
           marks w' = marks w @ [Attempt b None]"
  using create_rpa_webdriver_known [OF known, of w b opts d] fail by auto

lemma marks_set_driver_options [simp]:
  "marks (snd (set_driver_options e b up h m w)) = marks w"
  by (rule calm_marks [OF quiet_calm [OF set_driver_options_quiet]])

lemma failed_round_step:
  assumes known: "map_of OS_CMDS (platform_system e) = Some cmds"
    and fail: "\<And>v opts x. create_webdriver e v b opts x = None"
  shows "\<exists>w'. browser_loop e up h m (b # rest) w = browser_loop e up h m rest w' \<and>
           marks w' = marks w @ failed_round h b"
proof -
  obtain opts w1 where sdo: "set_driver_options e b up h m w = (opts, w1)"
    by (cases "set_driver_options e b up h m w")
  then have m1: "marks w1 = marks w"
    using marks_set_driver_options [of e b up h m w] by simp
  let ?w2 = "log INFO ''Initializing webdriver with default options (method 1)'' w1"
  from attempt_fails [OF known fail, of opts False ?w2]
  obtain w3 where a1: "create_rpa_webdriver e b opts False ?w2 = Inr (None, w3)"
    and m3: "marks w3 = marks ?w2 @ [Attempt b None]" by blast
  let ?w5 = "log INFO ''Initializing webdriver with downloaded driver (method 2)''
               (log INFO ''Could not init webdriver using method 1. '' w3)"
  from attempt_fails [OF known fail, of opts True ?w5]
  obtain w6 where a2: "create_rpa_webdriver e b opts True ?w5 = Inr (None, w6)"
    and m6: "marks w6 = marks ?w5 @ [Attempt b None]" by blast
  let ?w7 = "log INFO ''Could not init webdriver using method 2.'' w6"
  have m7: "marks ?w7 = marks w @ [Method 1, Attempt b None, Method 2, Attempt b None]"
    using m1 m3 m6 by (simp add: marks_log)
  show ?thesis
  proof (cases h)
    case True
    with sdo a1 a2 m7 show ?thesis
      by (intro exI [of _ ?w7]) (simp add: failed_round_def)
  next
    case False
    obtain opts3 w8 where sdo3: "set_driver_options e b up True m ?w7 = (opts3, w8)"
      by (cases "set_driver_options e b up True m ?w7")
    then have m8: "marks w8 = marks ?w7"
      using marks_set_driver_options [of e b up True m ?w7] by simp
    let ?w9 = "log INFO ''Initializing webdriver in headless mode (method 3)'' w8"
    from attempt_fails [OF known fail, of opts3 True ?w9]
    obtain w10 where a3: "create_rpa_webdriver e b opts3 True ?w9 = Inr (None, w10)"
      and m10: "marks w10 = marks ?w9 @ [Attempt b None]" by blast
    have "marks w10 = marks w @ failed_round h b"
      using False m7 m8 m10 by (simp add: marks_log failed_round_def)
    with False sdo a1 a2 sdo3 a3 show ?thesis
      by (intro exI [of _ w10]) simp
  qed
qed

lemma browser_loop_all_fail:
  assumes known: "map_of OS_CMDS (platform_system e) = Some cmds"
    and fail: "\<And>v b opts x. create_webdriver e v b opts x = None"
  shows "\<exists>w'. browser_loop e up h m cands w = Inr (None, w') \<and>
           marks w' = marks w @ concat (map (failed_round h) cands)"
proof (induction cands arbitrary: w)
  case Nil
  show ?case by simp
next
  case (Cons b rest)
  from failed_round_step [OF known fail, where b = b and up = up and h = h and m = m
      and rest = rest and w = w]
  obtain w1 where s: "browser_loop e up h m (b # rest) w = browser_loop e up h m rest w1"
    and m1: "marks w1 = marks w @ failed_round h b" by blast
  from Cons.IH [of w1] obtain w' where "browser_loop e up h m rest w1 = Inr (None, w')"
    and "marks w' = marks w1 @ concat (map (failed_round h) rest)" by blast
  with s m1 show ?case by (intro exI [of _ w']) simp
qed


lemma known_platform:
  "platform_system e \<in> {''Windows'', ''Linux'', ''Darwin''} \<Longrightarrow>
     \<exists>cmds. map_of OS_CMDS (platform_system e) = Some cmds"
  using os_cmds_known [of "platform_system e"] by auto




subsection \<open>What the version readers compute\<close>

lemma commands_log [simp]: "commands (log l m w) = commands w"
  by (simp add: commands_def log_def map_filter_def)

lemma commands_run:
  "commands (snd (run_command_return_output e c w)) = commands w @ [c]"
  by (simp add: run_command_return_output_def commands_def emit_def log_def map_filter_def
      split: option.splits)

lemma files_run [simp]: "files (snd (run_command_return_output e c w)) = files w"
  by (rule quiet_files [OF run_command_quiet])

lemma detect_loop_result:
  "fst (detect_loop e cmds w) =
     (case find (\<lambda>c. parsed_major (popen_output e (files w) c) \<noteq> None) cmds of
        None \<Rightarrow> None
      | Some c \<Rightarrow> Option.bind (parsed_major (popen_output e (files w) c))
                   (map_of CHROMEDRIVER_VERSIONS)) \<and>
   commands (snd (detect_loop e cmds w)) =
     commands w @ takeWhile (\<lambda>c. parsed_major (popen_output e (files w) c) = None) cmds @
       take 1 (dropWhile (\<lambda>c. parsed_major (popen_output e (files w) c) = None) cmds)"
proof (induction cmds arbitrary: w)
  case Nil
  show ?case by simp
next
  case (Cons cmd cmds)
  obtain out w1 where r: "run_command_return_output e cmd w = (out, w1)"
    by (cases "run_command_return_output e cmd w")
  have out: "out = popen_output e (files w) cmd"
    using run_command_fst [of e cmd w] r by simp
  have f1: "files w1 = files w" using files_run [of e cmd w] r by simp
  have c1: "commands w1 = commands w @ [cmd]" using commands_run [of e cmd w] r by simp
  note ih = Cons.IH [of w1, unfolded f1 c1]
  show ?case
  proof (cases "parsed_major (popen_output e (files w) cmd)")
    case None
    then have "detect_loop e (cmd # cmds) w = detect_loop e cmds w1"
      using r out by (auto simp: parsed_major_def split: option.splits if_splits)
    with None ih show ?thesis by simp
  next
    case (Some major)
    then obtain s version where s: "popen_output e (files w) cmd = Some s" "s \<noteq> []"
      "re_search CHROME_VERSION_PATTERN s = Some version" "group1 version = major"
      by (auto simp: parsed_major_def split: option.splits if_splits)
    with Some r out c1 show ?thesis
      by (simp add: Let_def)
  qed
qed

lemma table_lookup:
  "map_of CHROMEDRIVER_VERSIONS major =
     (if major = ''81'' then Some ''81.0.4044.69''
      else if major = ''80'' then Some ''80.0.3987.106''
      else if major = ''79'' then Some ''79.0.3945.36''
      else None)"
  by (simp add: CHROMEDRIVER_VERSIONS_def)

lemma example_find:
  "find (\<lambda>c. parsed_major (popen_output example_env (files example_world) c) \<noteq> None)
     [''chromium --version'', ''chromium-browser --version'', ''google-chrome --version'']
   = Some ''google-chrome --version''"
  by code_simp

lemma downloads_download_driver:
  "length (downloads (download_driver e dm dir v w)) = Suc (length (downloads w))"
  by (simp add: download_driver_def Let_def downloads_def log_def emit_def split: option.splits)

lemma detect_loop_fst_files:
  assumes "files v = files w"
  shows "fst (detect_loop e cmds v) = fst (detect_loop e cmds w)"
  unfolding detect_loop_result [THEN conjunct1] assms ..

lemma get_installed_fst_files:
  "files v = files w \<Longrightarrow>
     fst (get_installed_chromedriver_version e p v) = fst (get_installed_chromedriver_version e p w)"
  by (simp add: get_installed_fst)

subsection \<open>An attempt without a download\<close>

lemma quiet_step_log: "quiet w v \<Longrightarrow> mark_of (Log l m) = None \<Longrightarrow> quiet w (log l m v)"
  by (blast intro: quiet_trans quiet_log)

lemma quiet_step_detect: "quiet w v \<Longrightarrow> quiet w (snd (detect_loop e cmds v))"
  by (blast intro: quiet_trans detect_loop_quiet)

lemmas quiet_steps = quiet_refl quiet_step_log quiet_step_detect

lemma webdriver_init_no_download:
  assumes known: "map_of OS_CMDS (platform_system e) = Some cmds"
  shows "\<exists>w'. webdriver_init e b False w =
            Inr (map_option (\<lambda>dm. fst (set_driver_paths e dm False w))
                   (AVAILABLE_DRIVERS e (lower b)), w')
          \<and> quiet w w'"
proof (cases "AVAILABLE_DRIVERS e (lower b)")
  case None
  then show ?thesis
    using known
    apply (simp add: webdriver_init_def detect_chrome_version_def Let_def split_beta)
    apply (intro quiet_steps)
    apply simp
    done
next
  case (Some dm)
  show ?thesis
    using known Some
    apply (simp add: webdriver_init_def detect_chrome_version_def Let_def split_beta
        set_driver_paths_def)
    apply (intro conjI impI quiet_steps)
    apply simp_all
    done
qed

lemma downloads_log [simp]: "downloads (log l m w) = downloads w"
  by (simp add: downloads_def log_def)

lemma downloads_emit_launch [simp]:
  "downloads (emit (Launch b opts exe r) w) = downloads w"
  by (simp add: downloads_def emit_def)

lemma create_rpa_webdriver_no_download:
  assumes known: "map_of OS_CMDS (platform_system e) = Some cmds"
  shows "\<exists>r w'. create_rpa_webdriver e b opts False w = Inr (r, w') \<and>
           launches w' = launches w @
             [Launch b opts (map_option (\<lambda>dm. fst (set_driver_paths e dm False w))
                               (AVAILABLE_DRIVERS e (lower b))) r] \<and>
           downloads w' = downloads w \<and> files w' = files w"
proof -
  let ?w1 = "log DEBUG ''Driver options for create_rpa_webdriver: {options}'' w"
  let ?exe = "map_option (\<lambda>dm. fst (set_driver_paths e dm False w)) (AVAILABLE_DRIVERS e (lower b))"
  have q1: "quiet w ?w1" by (rule quiet_log) simp
  have exe1: "?exe = map_option (\<lambda>dm. fst (set_driver_paths e dm False ?w1))
      (AVAILABLE_DRIVERS e (lower b))"
    using set_driver_paths_files [OF quiet_files [OF q1], of e _ False]
    by (cases "AVAILABLE_DRIVERS e (lower b)") simp_all
  from webdriver_init_no_download [OF known, of b ?w1]
  obtain w2 where wi: "webdriver_init e b False ?w1 = Inr (?exe, w2)" and q12: "quiet ?w1 w2"
    unfolding exe1 [symmetric] by blast
  have q02: "quiet w w2" by (rule quiet_trans [OF q1 q12])
  have tr: "(if truthy ?exe then ?exe else None) = ?exe"
    by (cases "AVAILABLE_DRIVERS e (lower b)") (simp_all add: set_driver_paths_truthy)
  show ?thesis
    using tr quiet_launches [OF q02] quiet_downloads [OF q02] quiet_files [OF q02]
    by (cases "create_webdriver e w2 b opts ?exe")
      (simp_all add: create_rpa_webdriver_def wi Let_def launches_emit)
qed

subsection \<open>Downloads that fail\<close>

lemma files_check [simp]:
  "files (snd (check_chrome_and_driver_versions e p bv w)) = files w"
  by (rule quiet_files [OF check_versions_quiet])

lemma download_driver_fail_files:
  assumes "\<And>fs dm dir v. download_and_install e fs dm dir v = None"
  shows "files (download_driver e dm dir v w) = files w"
  by (simp add: download_driver_def Let_def assms)

lemma webdriver_init_files_fail:
  assumes known: "map_of OS_CMDS (platform_system e) = Some cmds"
    and fail: "\<And>fs dm dir v. download_and_install e fs dm dir v = None"
  shows "files (result_world (webdriver_init e b d w)) = files w"
  using known
  by (cases "AVAILABLE_DRIVERS e (lower b)")
    (simp_all add: webdriver_init_def detect_chrome_version_def Let_def split_beta
      download_driver_fail_files [OF fail])

subsection \<open>The shape of every run of the loop\<close>






subsection \<open>Reconciliation, given what the version commands report\<close>

lemma reconciliation_by_reported_versions:
  assumes known: "platform_system e \<in> {''Windows'', ''Linux'', ''Darwin''}"
    and manager: "AVAILABLE_DRIVERS e (lower browser) = Some dm"
    and path: "set_driver_paths e dm True w = (driver_ex_path, driver_tempdir)"
    and exists: "driver_ex_path \<in> set (files w)"
    and browser_version: "detect_chrome_version e w = Inr (browser_version, wd)"
    and driver_version:
      "get_installed_chromedriver_version e (path_join e driver_ex_path '' --version'') w =
         (chromedriver_version, wc)"
  shows "\<exists>w'. webdriver_init e browser True w = Inr (Some driver_ex_path, w') \<and>
           (if lower browser = ''chrome'' then
              if chromedriver_version = None \<or> chromedriver_version \<noteq> browser_version
              then length (downloads w') = Suc (length (downloads w))
              else downloads w' = downloads w \<and> files w' = files w
            else downloads w' = downloads w \<and> files w' = files w)"
proof -
  from known_platform [OF known] obtain cmds
    where k: "map_of OS_CMDS (platform_system e) = Some cmds" by blast
  let ?w1 = "log DEBUG (''Webdriver initialization for browser: '' @ [CHR 0x27] @ browser @
                        [CHR 0x27] @ ''. Download set to: {download}'') w"
  have q1: "quiet w ?w1" by (rule quiet_log) simp
  obtain bv w2 where dl: "detect_loop e cmds ?w1 = (bv, w2)"
    by (cases "detect_loop e cmds ?w1")
  have q2: "quiet ?w1 w2" using detect_loop_quiet [of ?w1 e cmds] dl by simp
  have "fst (detect_loop e cmds w) = browser_version"
    using browser_version k by (simp add: detect_chrome_version_def)
  then have bv: "bv = browser_version"
    using detect_loop_fst_files [OF quiet_files [OF q1], of e cmds] dl by simp
  let ?w3 = "log DEBUG ''Driver manager class: {dm_class}'' w2"
  have q3: "quiet w2 ?w3" by (rule quiet_log) simp
  have q03: "quiet w ?w3" by (rule quiet_trans [OF quiet_trans [OF q1 q2] q3])
  have f3: "files ?w3 = files w" by (rule quiet_files [OF q03])
  have sp: "set_driver_paths e dm True ?w3 = (driver_ex_path, driver_tempdir)"
    using path set_driver_paths_files [OF f3, of e dm True] by simp
  have ex3: "driver_ex_path \<in> set (files w2)" using exists f3 by simp
  obtain f w' where ck: "check_chrome_and_driver_versions e driver_ex_path bv ?w3 = (f, w')"
    by (cases "check_chrome_and_driver_versions e driver_ex_path bv ?w3")
  have q4: "quiet ?w3 w'" using check_versions_quiet [of ?w3 e driver_ex_path bv] ck by simp
  have q04: "quiet w w'" by (rule quiet_trans [OF q03 q4])
  have "fst (get_installed_chromedriver_version e (path_join e driver_ex_path '' --version'') ?w3)
          = chromedriver_version"
    using get_installed_fst_files [OF f3, of e "path_join e driver_ex_path '' --version''"]
      driver_version by simp
  then have f: "f = (chromedriver_version = None \<or> chromedriver_version \<noteq> browser_version)"
    using check_versions_fst [of e driver_ex_path bv ?w3] ck bv by simp
  have d1: "length (downloads (download_driver e dm driver_tempdir bv w')) =
      Suc (length (downloads w))"
    using downloads_download_driver [of e dm driver_tempdir bv w'] quiet_downloads [OF q04]
    by simp
  have d2: "downloads w' = downloads w \<and> files w' = files w"
    using quiet_downloads [OF q04] quiet_files [OF q04] by simp
  let ?w5 = "log INFO (''Driver download skipped, because it already existed at '' @
                       driver_ex_path) ?w3"
  have q5: "quiet ?w3 ?w5" by (rule quiet_log) simp
  have d3: "downloads ?w5 = downloads w \<and> files ?w5 = files w"
    using quiet_downloads [OF quiet_trans [OF q03 q5]] quiet_files [OF quiet_trans [OF q03 q5]]
    by simp
  have det: "detect_chrome_version e ?w1 = Inr (bv, w2)"
    using k dl by (simp add: detect_chrome_version_def)
  let ?cond = "chromedriver_version = None \<or> chromedriver_version \<noteq> browser_version"
  show ?thesis
  proof (cases "lower browser = ''chrome''")
    case chrome: True
    show ?thesis
    proof (cases f)
      case True
      then have ckT: "check_chrome_and_driver_versions e driver_ex_path bv ?w3 = (True, w')"
        using ck by simp
      have wi: "webdriver_init e browser True w =
          Inr (Some driver_ex_path, download_driver e dm driver_tempdir bv w')"
        using chrome det manager sp ex3 ckT by (simp add: webdriver_init_def Let_def)
      from True f have c: ?cond by blast
      show ?thesis
        by (rule exI [of _ "download_driver e dm driver_tempdir bv w'"])
          (simp only: wi if_P [OF chrome] if_P [OF c] d1 simp_thms)
    next
      case False
      then have ckF: "check_chrome_and_driver_versions e driver_ex_path bv ?w3 = (False, w')"
        using ck by simp
      have wi: "webdriver_init e browser True w = Inr (Some driver_ex_path, w')"
        using chrome det manager sp ex3 ckF by (simp add: webdriver_init_def Let_def)
      from False f have c: "\<not> ?cond" by blast
      show ?thesis
        by (rule exI [of _ w'])
          (simp only: wi if_P [OF chrome] if_not_P [OF c] d2 simp_thms)
    qed
  next
    case other: False
    have wi: "webdriver_init e browser True w = Inr (Some driver_ex_path, ?w5)"
      using other det manager sp ex3 by (simp add: webdriver_init_def Let_def)
    show ?thesis
      by (rule exI [of _ ?w5]) (simp only: wi if_not_P [OF other] d3 simp_thms)
  qed
qed

subsection \<open>The attempt of method 1\<close>

lemma set_driver_paths_no_download:
  "fst (set_driver_paths e dm False w) =
     (if path_join e
           (path_join e (case getenv e ''TEMPDIR'' of
                           None \<Rightarrow> gettempdir e
                         | Some t \<Rightarrow> if t = [] then gettempdir e else t) ''drivers'')
           (driver_filename dm) \<in> set (files w)
      then path_join e
             (path_join e (case getenv e ''TEMPDIR'' of
                             None \<Rightarrow> gettempdir e
                           | Some t \<Rightarrow> if t = [] then gettempdir e else t) ''drivers'')
             (driver_filename dm)
      else path_join e (link_path dm) (driver_filename dm))"
  by (simp add: set_driver_paths_def Let_def truthy_def split: option.splits)

lemma method_1_attempt:
  assumes known: "platform_system e \<in> {''Windows'', ''Linux'', ''Darwin''}"
  shows "\<exists>r w'.
           create_rpa_webdriver e browser
             (fst (set_driver_options e browser use_profile headless maximized w)) False
             (log INFO ''Initializing webdriver with default options (method 1)''
                (snd (set_driver_options e browser use_profile headless maximized w))) =
             Inr (r, w') \<and>
           launches w' = launches w @
             [Launch browser (fst (set_driver_options e browser use_profile headless maximized w))
                (map_option (\<lambda>dm. fst (set_driver_paths e dm False w))
                   (AVAILABLE_DRIVERS e (lower browser))) r] \<and>
           downloads w' = downloads w \<and> files w' = files w \<and>
           (case r of
              Some index \<Rightarrow>
                browser_loop e use_profile headless maximized (browser # rest) w =
                  Inr (Some (index, browser, 1), w')
            | None \<Rightarrow> True)"
proof -
  from known_platform [OF known] obtain cmds
    where k: "map_of OS_CMDS (platform_system e) = Some cmds" by blast
  let ?opts = "fst (set_driver_options e browser use_profile headless maximized w)"
  let ?w1 = "snd (set_driver_options e browser use_profile headless maximized w)"
  let ?w2 = "log INFO ''Initializing webdriver with default options (method 1)'' ?w1"
  have q1: "quiet w ?w1" by (rule set_driver_options_quiet)
  have f2: "files ?w2 = files w" using quiet_files [OF q1] by simp
  have l2: "launches ?w2 = launches w" using quiet_launches [OF q1] by simp
  have d2: "downloads ?w2 = downloads w" using quiet_downloads [OF q1] by simp
  have paths: "\<And>dm. set_driver_paths e dm False ?w2 = set_driver_paths e dm False w"
    by (rule set_driver_paths_files [OF f2])
  from create_rpa_webdriver_no_download [OF k, of browser ?opts ?w2]
  obtain r w' where cr: "create_rpa_webdriver e browser ?opts False ?w2 = Inr (r, w')"
    and l: "launches w' = launches ?w2 @
             [Launch browser ?opts (map_option (\<lambda>dm. fst (set_driver_paths e dm False ?w2))
                               (AVAILABLE_DRIVERS e (lower browser))) r]"
    and d: "downloads w' = downloads ?w2" and f: "files w' = files ?w2" by blast
  have loop: "case r of
      Some index \<Rightarrow> browser_loop e use_profile headless maximized (browser # rest) w =
                      Inr (Some (index, browser, 1), w')
    | None \<Rightarrow> True"
    using cr by (cases r) (simp_all add: split_beta)
  show ?thesis
    using cr l d f loop
    by (simp only: paths l2 d2 f2) blast
qed

section \<open>Properties\<close>

text \<open>
  C3: with the selector \<open>AUTO\<close> the candidate list is Chrome followed by the tail of the
  platform: Firefox, Edge, IE, Opera on Windows; Firefox, Opera on Linux; Safari, Firefox,
  Opera on Darwin; Firefox alone on every other platform.
\<close>

theorem automatic_order_per_platform:
  "get_browser_order e (Name ''AUTO'') =
     ''Chrome'' #
       (if platform_system e = ''Windows'' then [''Firefox'', ''Edge'', ''IE'', ''Opera'']
        else if platform_system e = ''Linux'' then [''Firefox'', ''Opera'']
        else if platform_system e = ''Darwin'' then [''Safari'', ''Firefox'', ''Opera'']
        else [''Firefox''])"
  by (simp add: AUTOMATIC_BROWSER_SELECTION_def get_preferable_browser_order_def)

theorem automatic_order_per_platform_witness:
  "get_browser_order example_env (Name ''AUTO'') = [''Chrome'', ''Firefox'', ''Opera'']"
  using automatic_order_per_platform [of example_env] by (simp add: example_env_def)

text \<open>
  C4: an explicit selection is the candidate list as it stands: a list of names is returned
  unchanged, a single name other than \<open>AUTO\<close> becomes the one-element list of that name.
\<close>

theorem explicit_order_is_input:
  "get_browser_order e (Names xs) = xs \<and>
   (s \<noteq> ''AUTO'' \<longrightarrow> get_browser_order e (Name s) = [s])"
  by (simp add: AUTOMATIC_BROWSER_SELECTION_def)

theorem explicit_order_is_input_witness:
  "get_browser_order example_env (Names [''Opera'', ''Chrome'']) = [''Opera'', ''Chrome''] \<and>
   ''Chrome'' \<noteq> ''AUTO'' \<and> get_browser_order example_env (Name ''Chrome'') = [''Chrome'']"
  using explicit_order_is_input [of example_env "[''Opera'', ''Chrome'']" "''Chrome''"] by simp

text \<open>
  C10: for every browser other than Chrome (a name whose lower-case form is not
  \<open>chrome\<close>, the only key of \<open>AVAILABLE_OPTIONS\<close>), \<open>set_driver_options\<close> returns the
  empty dictionary whatever \<open>use_profile\<close>, \<open>headless\<close> and \<open>maximized\<close> are, and
  leaves the world as it was.
\<close>

theorem non_chrome_options_empty:
  "lower browser \<noteq> ''chrome'' \<Longrightarrow>
     set_driver_options e browser use_profile headless maximized w = ([], w)"
  by (simp add: set_driver_options_def AVAILABLE_OPTIONS_def)

theorem non_chrome_options_empty_witness:
  "set_driver_options example_env ''Firefox'' True True True example_world = ([], example_world)"
  using non_chrome_options_empty [of "''Firefox''" example_env True True True example_world]
  by simp

text \<open>
  C2: on a platform with probe commands, when every launch attempt fails the procedure
  raises \<open>BrowserNotFoundError\<close>, and what it has done by then is, for every candidate in
  order: method 1 and a failed attempt, method 2 and a failed attempt, and method 3 and a
  failed attempt unless the caller asked for headless mode, in which case method 3 is left
  out and each candidate is attempted twice.
\<close>

theorem all_fail_raises_not_found:
  assumes known: "platform_system e \<in> {''Windows'', ''Linux'', ''Darwin''}"
    and fail: "\<forall>v b opts x. create_webdriver e v b opts x = None"
  shows "\<exists>w'. open_available_browser e url use_profile headless maximized selection w =
                 Inl (BrowserNotFoundError, w') \<and>
              marks w' = marks w @
                concat (map (\<lambda>b. [Method 1, Attempt b None, Method 2, Attempt b None] @
                                  (if headless then [] else [Method 3, Attempt b None]))
                            (get_browser_order e selection))"
proof -
  from known_platform [OF known] obtain cmds
    where k: "map_of OS_CMDS (platform_system e) = Some cmds" by blast
  let ?order = "get_browser_order e selection"
  let ?w1 = "log INFO (''Open Available Browser preferable browser selection order is: '' @
                       join '', '' ?order) w"
  from fail have f: "\<And>v b opts x. create_webdriver e v b opts x = None" by blast
  from browser_loop_all_fail [OF k f, where up = use_profile and h = headless
      and m = maximized and cands = ?order and w = ?w1]
  obtain w2 where l: "browser_loop e use_profile headless maximized ?order ?w1 = Inr (None, w2)"
    and m2: "marks w2 = marks ?w1 @ concat (map (failed_round headless) ?order)" by blast
  have fr: "failed_round headless =
      (\<lambda>b. [Method 1, Attempt b None, Method 2, Attempt b None] @
            (if headless then [] else [Method 3, Attempt b None]))"
    by (rule ext) (simp add: failed_round_def)
  from l m2 show ?thesis
    by (simp add: open_available_browser_def Let_def marks_log fr)
qed

theorem all_fail_raises_not_found_witness:
  "\<exists>w'. open_available_browser failing_env ''http://example.com'' False False False
            (Name ''AUTO'') example_world = Inl (BrowserNotFoundError, w') \<and>
         marks w' =
           [Method 1, Attempt ''Chrome'' None, Method 2, Attempt ''Chrome'' None,
            Method 3, Attempt ''Chrome'' None,
            Method 1, Attempt ''Firefox'' None, Method 2, Attempt ''Firefox'' None,
            Method 3, Attempt ''Firefox'' None,
            Method 1, Attempt ''Opera'' None, Method 2, Attempt ''Opera'' None,
            Method 3, Attempt ''Opera'' None]"
  using all_fail_raises_not_found [of failing_env "''http://example.com''" False False False
      "Name ''AUTO''" example_world]
  by (simp add: failing_env_def example_env_def example_world_def marks_def map_filter_def
      AUTOMATIC_BROWSER_SELECTION_def get_preferable_browser_order_def)

text \<open>
  C9: on a platform whose name is not Windows, Linux or Darwin, \<open>detect_chrome_version\<close>
  raises \<open>KeyError\<close> on its table of commands; \<open>webdriver_init\<close> calls it first for
  every browser, so it raises too; and \<open>open_available_browser\<close> ends with that
  \<open>KeyError\<close> without a single launch attempt, for the selection \<open>AUTO\<close> and for every
  selection with at least one candidate.
\<close>

theorem unknown_platform_key_error:
  assumes unknown: "platform_system e \<notin> {''Windows'', ''Linux'', ''Darwin''}"
  shows "detect_chrome_version e w = Inl (KeyError (platform_system e), w) \<and>
         (\<exists>w'. webdriver_init e browser download w = Inl (KeyError (platform_system e), w')) \<and>
         (\<exists>w'. open_available_browser e url use_profile headless maximized (Name ''AUTO'') w =
                  Inl (KeyError (platform_system e), w') \<and> launches w' = launches w) \<and>
         (get_browser_order e selection \<noteq> [] \<longrightarrow>
            (\<exists>w'. open_available_browser e url use_profile headless maximized selection w =
                     Inl (KeyError (platform_system e), w') \<and> launches w' = launches w))"
proof -
  from unknown have u: "map_of OS_CMDS (platform_system e) = None"
    using os_cmds_known [of "platform_system e"] by auto
  have loop: "\<exists>w'. open_available_browser e url use_profile headless maximized sel w =
                     Inl (KeyError (platform_system e), w') \<and> launches w' = launches w"
    if ne: "get_browser_order e sel \<noteq> []" for sel
  proof -
    from ne obtain b rest where o: "get_browser_order e sel = b # rest"
      by (cases "get_browser_order e sel") auto
    let ?w1 = "log INFO (''Open Available Browser preferable browser selection order is: '' @
                         join '', '' (b # rest)) w"
    from browser_loop_unknown [OF u, of use_profile headless maximized b rest ?w1]
    obtain w' where "browser_loop e use_profile headless maximized (b # rest) ?w1 =
        Inl (KeyError (platform_system e), w')" and "launches w' = launches ?w1" by blast
    then show ?thesis
      by (simp add: open_available_browser_def Let_def o)
  qed
  have auto_ne: "get_browser_order e (Name ''AUTO'') \<noteq> []"
    by (simp add: AUTOMATIC_BROWSER_SELECTION_def get_preferable_browser_order_def Let_def)
  show ?thesis
    using detect_unknown [OF u, of w] webdriver_init_unknown [OF u, of browser download w]
      loop [OF auto_ne] loop [of selection]
    by blast
qed

theorem unknown_platform_key_error_witness:
  "detect_chrome_version unknown_env example_world = Inl (KeyError ''FreeBSD'', example_world) \<and>
   (\<exists>w'. webdriver_init unknown_env ''Chrome'' False example_world = Inl (KeyError ''FreeBSD'', w')) \<and>
   (\<exists>w'. open_available_browser unknown_env ''http://example.com'' False False False
            (Name ''AUTO'') example_world = Inl (KeyError ''FreeBSD'', w') \<and> launches w' = []) \<and>
   (\<exists>w'. open_available_browser unknown_env ''http://example.com'' False False False
            (Names [''Firefox'']) example_world = Inl (KeyError ''FreeBSD'', w') \<and> launches w' = [])"
  using unknown_platform_key_error [of unknown_env example_world "''Chrome''" False
      "''http://example.com''" False False False "Names [''Firefox'']"]
  by (simp add: unknown_env_def example_env_def example_world_def launches_def)



text \<open>
  C7, as the code has it: on a platform with probe commands the commands are run in their
  fixed order up to and including the first one whose output is not empty and contains a
  match of the pattern \<open>(\d+)(\.\d+\.\d+.\d+)\<close>; a command whose output has no match does
  not end the search. The result is the entry of the table for the major version of that
  match (group 1), and unknown (\<open>None\<close>) when no output has a match or the major version is
  not one of 81, 80, 79. The reader of the installed driver's version maps the output of its
  one command in the same way. An unknown Chrome version makes the comparison with the
  driver's version ask for a download.
\<close>

theorem version_detection_result:
  assumes known: "map_of OS_CMDS (platform_system e) = Some cmds"
  shows "(\<exists>w'. detect_chrome_version e w =
                 Inr (case find (\<lambda>c. parsed_major (popen_output e (files w) c) \<noteq> None) cmds of
                        None \<Rightarrow> None
                      | Some c \<Rightarrow> Option.bind (parsed_major (popen_output e (files w) c))
                                   (map_of CHROMEDRIVER_VERSIONS), w') \<and>
               files w' = files w \<and>
               commands w' = commands w @
                 takeWhile (\<lambda>c. parsed_major (popen_output e (files w) c) = None) cmds @
                 take 1 (dropWhile (\<lambda>c. parsed_major (popen_output e (files w) c) = None) cmds)) \<and>
         map_of CHROMEDRIVER_VERSIONS major =
           (if major = ''81'' then Some ''81.0.4044.69''
            else if major = ''80'' then Some ''80.0.3987.106''
            else if major = ''79'' then Some ''79.0.3945.36''
            else None) \<and>
         fst (get_installed_chromedriver_version e path w) =
           Option.bind (parsed_major (popen_output e (files w) path)) (map_of CHROMEDRIVER_VERSIONS) \<and>
         fst (check_chrome_and_driver_versions e driver_ex_path None w)"
proof -
  obtain r w' where d: "detect_loop e cmds w = (r, w')" by (cases "detect_loop e cmds w")
  with detect_loop_result [of e cmds w] files_detect_loop [of e cmds w]
  have "detect_chrome_version e w =
          Inr (case find (\<lambda>c. parsed_major (popen_output e (files w) c) \<noteq> None) cmds of
                 None \<Rightarrow> None
               | Some c \<Rightarrow> Option.bind (parsed_major (popen_output e (files w) c))
                            (map_of CHROMEDRIVER_VERSIONS), w')"
    and "files w' = files w"
    and "commands w' = commands w @
           takeWhile (\<lambda>c. parsed_major (popen_output e (files w) c) = None) cmds @
           take 1 (dropWhile (\<lambda>c. parsed_major (popen_output e (files w) c) = None) cmds)"
    using known by (simp_all add: detect_chrome_version_def)
  then show ?thesis
    using table_lookup [of major] get_installed_fst [of e path w]
      check_versions_fst [of e driver_ex_path None w]
    by auto
qed

theorem version_detection_result_witness:
  "(\<exists>w'. detect_chrome_version example_env example_world = Inr (Some ''81.0.4044.69'', w') \<and>
         files w' = files example_world \<and>
         commands w' = [''chromium --version'', ''chromium-browser --version'',
                        ''google-chrome --version'']) \<and>
   map_of CHROMEDRIVER_VERSIONS ''78'' = None \<and>
   fst (get_installed_chromedriver_version example_env ''/tmp/drivers/chromedriver/ --version''
          example_world) = None \<and>
   fst (check_chrome_and_driver_versions example_env ''/tmp/drivers/chromedriver'' None
          example_world)"
proof -
  have k: "map_of OS_CMDS (platform_system example_env) =
      Some [''chromium --version'', ''chromium-browser --version'', ''google-chrome --version'']"
    by (simp add: example_env_def OS_CMDS_def)
  have v: "Option.bind (parsed_major (popen_output example_env (files example_world)
               ''google-chrome --version'')) (map_of CHROMEDRIVER_VERSIONS) = Some ''81.0.4044.69''"
    by code_simp
  have t: "takeWhile (\<lambda>c. parsed_major (popen_output example_env (files example_world) c) = None)
      [''chromium --version'', ''chromium-browser --version'', ''google-chrome --version''] @
     take 1 (dropWhile (\<lambda>c. parsed_major (popen_output example_env (files example_world) c) = None)
      [''chromium --version'', ''chromium-browser --version'', ''google-chrome --version''])
     = [''chromium --version'', ''chromium-browser --version'', ''google-chrome --version'']"
    by code_simp
  have p: "Option.bind (parsed_major (popen_output example_env (files example_world)
               ''/tmp/drivers/chromedriver/ --version'')) (map_of CHROMEDRIVER_VERSIONS) = None"
    by code_simp
  have c: "commands example_world = []"
    by (simp add: commands_def example_world_def map_filter_def)
  show ?thesis
    using version_detection_result [OF k, of example_world "''78''"
        "''/tmp/drivers/chromedriver/ --version''" "''/tmp/drivers/chromedriver''"]
    by (simp only: example_find v t p c option.case append_Nil) simp
qed

text \<open>
  C7 as stated has the probes run until one produces output, and an output without a
  version yield unknown. On a Linux machine whose first probe prints a notice without any
  version, that probe has produced output, yet the detection goes on to the third probe and
  returns the driver version for the Chrome 81 found there.
\<close>

theorem first_output_does_not_decide:
  "map_of OS_CMDS (platform_system stub_env) =
     Some [''chromium --version'', ''chromium-browser --version'', ''google-chrome --version''] \<and>
   popen_output stub_env (files example_world) ''chromium --version'' = Some stub_output \<and>
   stub_output \<noteq> no_output \<and>
   stub_output \<noteq> [] \<and>
   re_search CHROME_VERSION_PATTERN stub_output = None \<and>
   detect_chrome_version stub_env example_world =
     Inr (Some ''81.0.4044.69'',
          \<lparr>files = [''/usr/local/bin/chromedriver''],
           events = [Run_command ''chromium --version'',
                     Run_command ''chromium-browser --version'',
                     Run_command ''google-chrome --version'',
                     Log INFO ''Detected Chrome major version is: 81.0.4044.92'']\<rparr>)"
proof -
  have "map_of OS_CMDS (platform_system stub_env) =
     Some [''chromium --version'', ''chromium-browser --version'', ''google-chrome --version'']"
    by (simp add: stub_env_def example_env_def OS_CMDS_def)
  moreover have "popen_output stub_env (files example_world) ''chromium --version'' =
      Some stub_output"
    by (simp add: stub_env_def)
  moreover have "stub_output \<noteq> no_output" by (simp add: stub_output_def no_output_def)
  moreover have "stub_output \<noteq> []" by (simp add: stub_output_def)
  moreover have "re_search CHROME_VERSION_PATTERN stub_output = None" by code_simp
  moreover have "detect_chrome_version stub_env example_world =
     Inr (Some ''81.0.4044.69'',
          \<lparr>files = [''/usr/local/bin/chromedriver''],
           events = [Run_command ''chromium --version'',
                     Run_command ''chromium-browser --version'',
                     Run_command ''google-chrome --version'',
                     Log INFO ''Detected Chrome major version is: 81.0.4044.92'']\<rparr>)"
    by code_simp
  ultimately show ?thesis by (intro conjI)
qed

text \<open>
  C6: with a download requested and a driver at the resolved path, Chrome's driver is to be
  downloaded again only when its version is unknown or differs from the one derived from
  the detected Chrome, and not when the two match. The code does not reach the second case:
  the command it runs to read the driver's version is \<open>str(driver_ex_path / " --version")\<close>,
  the path followed by a slash and the argument, not the driver with the argument. On a
  machine with Chrome 81.0.4044.92 and, on disk, the driver 81.0.4044.69 that the table has
  for it (the driver says so when asked with \<open>/tmp/drivers/chromedriver --version\<close>), the
  code runs \<open>/tmp/drivers/chromedriver/ --version\<close>, reads no version from it, and
  downloads the driver again.
\<close>

theorem matching_driver_is_downloaded_again:
  "Option.bind (parsed_major (popen_output driver_81_env (files temp_driver_world)
                  ''google-chrome --version'')) (map_of CHROMEDRIVER_VERSIONS) =
     Some ''81.0.4044.69'' \<and>
   Option.bind (parsed_major (popen_output driver_81_env (files temp_driver_world)
                  ''/tmp/drivers/chromedriver --version'')) (map_of CHROMEDRIVER_VERSIONS) =
     Some ''81.0.4044.69'' \<and>
   set_driver_paths driver_81_env
     \<lparr>driver_filename = ''chromedriver'', link_path = ''/usr/local/bin''\<rparr> True
     temp_driver_world = (''/tmp/drivers/chromedriver'', ''/tmp/drivers'') \<and>
   ''/tmp/drivers/chromedriver'' \<in> set (files temp_driver_world) \<and>
   commands (result_world (webdriver_init driver_81_env ''Chrome'' True temp_driver_world)) =
     [''chromium --version'', ''chromium-browser --version'', ''google-chrome --version'',
      ''/tmp/drivers/chromedriver/ --version''] \<and>
   downloads (result_world (webdriver_init driver_81_env ''Chrome'' True temp_driver_world)) =
     [Download \<lparr>driver_filename = ''chromedriver'', link_path = ''/tmp/drivers''\<rparr>
        ''/tmp/drivers'' (Some ''81.0.4044.69'') True]"
proof -
  have "Option.bind (parsed_major (popen_output driver_81_env (files temp_driver_world)
                  ''google-chrome --version'')) (map_of CHROMEDRIVER_VERSIONS) =
     Some ''81.0.4044.69''"
    by code_simp
  moreover have "Option.bind (parsed_major (popen_output driver_81_env (files temp_driver_world)
                  ''/tmp/drivers/chromedriver --version'')) (map_of CHROMEDRIVER_VERSIONS) =
     Some ''81.0.4044.69''"
    by code_simp
  moreover have "set_driver_paths driver_81_env
     \<lparr>driver_filename = ''chromedriver'', link_path = ''/usr/local/bin''\<rparr> True
     temp_driver_world = (''/tmp/drivers/chromedriver'', ''/tmp/drivers'')"
    by code_simp
  moreover have "''/tmp/drivers/chromedriver'' \<in> set (files temp_driver_world)"
    by (simp add: temp_driver_world_def)
  moreover have
    "commands (result_world (webdriver_init driver_81_env ''Chrome'' True temp_driver_world)) =
     [''chromium --version'', ''chromium-browser --version'', ''google-chrome --version'',
      ''/tmp/drivers/chromedriver/ --version'']"
    by code_simp
  moreover have
    "downloads (result_world (webdriver_init driver_81_env ''Chrome'' True temp_driver_world)) =
     [Download \<lparr>driver_filename = ''chromedriver'', link_path = ''/tmp/drivers''\<rparr>
        ''/tmp/drivers'' (Some ''81.0.4044.69'') True]"
    by code_simp
  ultimately show ?thesis by (intro conjI)
qed

text \<open>
  C5, as the code has it: on a platform with probe commands, the attempt of method 1 is made
  with the options that \<open>set_driver_options\<close> builds from the caller's own flags (the
  caller's \<open>headless\<close>, not a forced one); it downloads nothing and leaves the files as
  they are; and the launcher is given an explicit executable path whenever the browser has a
  driver manager: the driver in the directory \<open>drivers\<close> of the temporary directory
  (\<open>TEMPDIR\<close> when it is set and not empty, the system's otherwise) if that file exists,
  the one at the manager's link path otherwise. Only for a browser without a driver manager
  is the launcher called without a path. When the attempt succeeds the loop ends there with
  method 1.
\<close>

theorem method_1_launch:
  assumes known: "platform_system e \<in> {''Windows'', ''Linux'', ''Darwin''}"
    and tempdir: "tempdir = (case getenv e ''TEMPDIR'' of
                               None \<Rightarrow> gettempdir e
                             | Some t \<Rightarrow> if t = [] then gettempdir e else t)"
  shows "\<exists>r w'.
           create_rpa_webdriver e browser
             (fst (set_driver_options e browser use_profile headless maximized w)) False
             (log INFO ''Initializing webdriver with default options (method 1)''
                (snd (set_driver_options e browser use_profile headless maximized w))) =
             Inr (r, w') \<and>
           launches w' = launches w @
             [Launch browser (fst (set_driver_options e browser use_profile headless maximized w))
                (case AVAILABLE_DRIVERS e (lower browser) of
                   None \<Rightarrow> None
                 | Some dm \<Rightarrow>
                     Some (if path_join e (path_join e tempdir ''drivers'') (driver_filename dm)
                                \<in> set (files w)
                           then path_join e (path_join e tempdir ''drivers'') (driver_filename dm)
                           else path_join e (link_path dm) (driver_filename dm))) r] \<and>
           downloads w' = downloads w \<and> files w' = files w \<and>
           (case r of
              Some index \<Rightarrow>
                browser_loop e use_profile headless maximized (browser # rest) w =
                  Inr (Some (index, browser, 1), w')
            | None \<Rightarrow> True)"
proof -
  have "map_option (\<lambda>dm. fst (set_driver_paths e dm False w))
          (AVAILABLE_DRIVERS e (lower browser)) =
        (case AVAILABLE_DRIVERS e (lower browser) of
           None \<Rightarrow> None
         | Some dm \<Rightarrow>
             Some (if path_join e (path_join e tempdir ''drivers'') (driver_filename dm)
                        \<in> set (files w)
                   then path_join e (path_join e tempdir ''drivers'') (driver_filename dm)
                   else path_join e (link_path dm) (driver_filename dm)))"
    by (cases "AVAILABLE_DRIVERS e (lower browser)")
      (simp_all add: set_driver_paths_no_download tempdir)
  with method_1_attempt [OF known, of browser use_profile headless maximized w rest]
  show ?thesis by simp
qed

theorem method_1_launch_witness:
  "(\<exists>r w'.
      create_rpa_webdriver succeeding_env ''Chrome''
        (fst (set_driver_options succeeding_env ''Chrome'' False False False both_drivers_world))
        False
        (log INFO ''Initializing webdriver with default options (method 1)''
           (snd (set_driver_options succeeding_env ''Chrome'' False False False
                   both_drivers_world))) =
        Inr (r, w') \<and>
      launches w' = launches both_drivers_world @
        [Launch ''Chrome''
           (fst (set_driver_options succeeding_env ''Chrome'' False False False
                   both_drivers_world))
           (Some ''/tmp/drivers/chromedriver'') r] \<and>
      downloads w' = downloads both_drivers_world \<and> files w' = files both_drivers_world \<and>
      (case r of
         Some index \<Rightarrow>
           browser_loop succeeding_env False False False [''Chrome''] both_drivers_world =
             Inr (Some (index, ''Chrome'', 1), w')
       | None \<Rightarrow> True)) \<and>
   (\<exists>r w'.
      create_rpa_webdriver succeeding_env ''Chrome''
        (fst (set_driver_options succeeding_env ''Chrome'' False False False example_world)) False
        (log INFO ''Initializing webdriver with default options (method 1)''
           (snd (set_driver_options succeeding_env ''Chrome'' False False False example_world))) =
        Inr (r, w') \<and>
      launches w' = launches example_world @
        [Launch ''Chrome''
           (fst (set_driver_options succeeding_env ''Chrome'' False False False example_world))
           (Some ''/usr/local/bin/chromedriver'') r] \<and>
      downloads w' = downloads example_world \<and> files w' = files example_world \<and>
      (case r of
         Some index \<Rightarrow>
           browser_loop succeeding_env False False False [''Chrome''] example_world =
             Inr (Some (index, ''Chrome'', 1), w')
       | None \<Rightarrow> True))"
proof -
  have known: "platform_system succeeding_env \<in> {''Windows'', ''Linux'', ''Darwin''}"
    by (simp add: succeeding_env_def example_env_def)
  have tempdir: "''/tmp'' = (case getenv succeeding_env ''TEMPDIR'' of
                               None \<Rightarrow> gettempdir succeeding_env
                             | Some t \<Rightarrow> if t = [] then gettempdir succeeding_env else t)"
    by (simp add: succeeding_env_def example_env_def)
  have temp: "(case AVAILABLE_DRIVERS succeeding_env (lower ''Chrome'') of
       None \<Rightarrow> None
     | Some dm \<Rightarrow>
         Some (if path_join succeeding_env (path_join succeeding_env ''/tmp'' ''drivers'')
                    (driver_filename dm) \<in> set (files both_drivers_world)
               then path_join succeeding_env (path_join succeeding_env ''/tmp'' ''drivers'')
                      (driver_filename dm)
               else path_join succeeding_env (link_path dm) (driver_filename dm))) =
     Some ''/tmp/drivers/chromedriver''"
    by (simp add: succeeding_env_def example_env_def example_drivers_def both_drivers_world_def
        path_join_def)
  have link: "(case AVAILABLE_DRIVERS succeeding_env (lower ''Chrome'') of
       None \<Rightarrow> None
     | Some dm \<Rightarrow>
         Some (if path_join succeeding_env (path_join succeeding_env ''/tmp'' ''drivers'')
                    (driver_filename dm) \<in> set (files example_world)
               then path_join succeeding_env (path_join succeeding_env ''/tmp'' ''drivers'')
                      (driver_filename dm)
               else path_join succeeding_env (link_path dm) (driver_filename dm))) =
     Some ''/usr/local/bin/chromedriver''"
    by (simp add: succeeding_env_def example_env_def example_drivers_def example_world_def
        path_join_def)
  show ?thesis
    using method_1_launch [OF known tempdir, of "''Chrome''" False False False
        both_drivers_world "[]"]
      method_1_launch [OF known tempdir, of "''Chrome''" False False False example_world "[]"]
    unfolding temp link by (rule conjI)
qed

text \<open>
  C5 as stated has method 1 call the launcher without an explicit driver path. On the
  example machine, with a launcher that succeeds at once, the loop makes the single attempt
  of method 1 on Chrome, and that call carries the path of the installed driver.
\<close>

theorem method_1_passes_driver_path:
  "marks (result_world
      (browser_loop succeeding_env False False False [''Chrome''] example_world)) =
     [Method 1, Attempt ''Chrome'' (Some 1)] \<and>
   map executable_of
     (launches (result_world
        (browser_loop succeeding_env False False False [''Chrome''] example_world))) =
   [Some ''/usr/local/bin/chromedriver'']"
  by code_simp

text \<open>
  C8, as the code has it: when \<open>download_and_install\<close> raises \<open>RuntimeError\<close>, the
  error is caught inside \<open>download_driver\<close> and passed over without a log record: the
  events of the call are the INFO record written before the download and the failed
  download, no file changes, and the debug record of the \<open>try\<close> block is not written.
  The acquisition goes on: on a platform with probe commands the attempt that asked for the
  download returns normally, with the files as they were and its launch made on the
  resolved driver path.
\<close>

theorem download_failure_swallowed:
  assumes known: "platform_system e \<in> {''Windows'', ''Linux'', ''Darwin''}"
    and failure: "\<forall>fs dm dir v. download_and_install e fs dm dir v = None"
  shows "download_driver e dm download_dir version w =
           w\<lparr>events := events w @
               [Log INFO (''Downloading driver into: '' @ download_dir),
                Download (dm\<lparr>link_path := download_dir\<rparr>) download_dir
                  (if truthy version then version else None) False]\<rparr> \<and>
         (\<exists>r w'. create_rpa_webdriver e browser options True w = Inr (r, w') \<and>
                  files w' = files w \<and>
                  launches w' = launches w @
                    [Launch browser options
                       (map_option (\<lambda>dm. fst (set_driver_paths e dm True w))
                          (AVAILABLE_DRIVERS e (lower browser))) r])"
proof -
  from known_platform [OF known] obtain cmds
    where k: "map_of OS_CMDS (platform_system e) = Some cmds" by blast
  from failure have f: "\<And>fs dm dir v. download_and_install e fs dm dir v = None" by blast
  have a: "download_driver e dm download_dir version w =
           w\<lparr>events := events w @
               [Log INFO (''Downloading driver into: '' @ download_dir),
                Download (dm\<lparr>link_path := download_dir\<rparr>) download_dir
                  (if truthy version then version else None) False]\<rparr>"
    by (simp add: download_driver_def Let_def log_def emit_def f)
  let ?w1 = "log DEBUG ''Driver options for create_rpa_webdriver: {options}'' w"
  from create_rpa_webdriver_known [OF k, of w browser options True]
  obtain w2 w' where cr: "create_rpa_webdriver e browser options True w =
      Inr (create_webdriver e w2 browser options
             (map_option (\<lambda>dm. fst (set_driver_paths e dm True w))
                (AVAILABLE_DRIVERS e (lower browser))), w')"
    and l: "launches w' = launches w @
      [Launch browser options
         (map_option (\<lambda>dm. fst (set_driver_paths e dm True w)) (AVAILABLE_DRIVERS e (lower browser)))
         (create_webdriver e w2 browser options
             (map_option (\<lambda>dm. fst (set_driver_paths e dm True w))
                (AVAILABLE_DRIVERS e (lower browser))))]"
    by blast
  from webdriver_init_known [OF k, of browser True ?w1]
  obtain v where wi: "webdriver_init e browser True ?w1 =
      Inr (map_option (\<lambda>dm. fst (set_driver_paths e dm True ?w1))
             (AVAILABLE_DRIVERS e (lower browser)), v)" by blast
  have fv: "files v = files w"
    using webdriver_init_files_fail [OF k f, of browser True ?w1] wi by simp
  have "files (result_world (create_rpa_webdriver e browser options True w)) = files w"
    using wi fv
    by (simp add: create_rpa_webdriver_def Let_def split: option.splits)
  with cr have "files w' = files w" by simp
  with a cr l show ?thesis by blast
qed

theorem download_failure_swallowed_witness:
  "download_driver download_failing_env
     \<lparr>driver_filename = ''chromedriver'', link_path = ''/usr/local/bin''\<rparr>
     ''/tmp/drivers'' None example_world =
     example_world\<lparr>events := events example_world @
       [Log INFO ''Downloading driver into: /tmp/drivers'',
        Download \<lparr>driver_filename = ''chromedriver'', link_path = ''/tmp/drivers''\<rparr>
          ''/tmp/drivers'' None False]\<rparr> \<and>
   (\<exists>r w'. create_rpa_webdriver download_failing_env ''Chrome'' [] True example_world =
              Inr (r, w') \<and>
            files w' = files example_world \<and>
            launches w' = launches example_world @
              [Launch ''Chrome'' [] (Some ''/tmp/drivers/chromedriver'') r])"
proof -
  have known: "platform_system download_failing_env \<in> {''Windows'', ''Linux'', ''Darwin''}"
    by (simp add: download_failing_env_def failing_env_def example_env_def)
  have failure: "\<forall>fs dm dir v. download_and_install download_failing_env fs dm dir v = None"
    by (simp add: download_failing_env_def)
  have exe: "map_option (\<lambda>dm. fst (set_driver_paths download_failing_env dm True example_world))
      (AVAILABLE_DRIVERS download_failing_env (lower ''Chrome'')) =
      Some ''/tmp/drivers/chromedriver''"
    by (simp add: download_failing_env_def failing_env_def example_env_def example_drivers_def
        set_driver_paths_def truthy_def path_join_def)
  show ?thesis
    using download_failure_swallowed [OF known failure,
        of "\<lparr>driver_filename = ''chromedriver'', link_path = ''/usr/local/bin''\<rparr>"
          "''/tmp/drivers''" None example_world "''Chrome''" "[]"]
    unfolding exe by (simp add: truthy_def)
qed

text \<open>
  C8 as stated has the failure logged at debug level. On a machine whose downloads raise
  \<open>RuntimeError\<close>, the events of \<open>download_driver\<close> are the INFO record and the failed
  download: no record at debug level is among them.
\<close>

theorem download_failure_not_logged:
  "download_and_install download_failing_env (files example_world)
     \<lparr>driver_filename = ''chromedriver'', link_path = ''/tmp/drivers''\<rparr> ''/tmp/drivers'' None
     = None \<and>
   events (download_driver download_failing_env
             \<lparr>driver_filename = ''chromedriver'', link_path = ''/usr/local/bin''\<rparr>
             ''/tmp/drivers'' None example_world) =
     [Log INFO ''Downloading driver into: /tmp/drivers'',
      Download \<lparr>driver_filename = ''chromedriver'', link_path = ''/tmp/drivers''\<rparr>
        ''/tmp/drivers'' None False] \<and>
   filter is_debug
     (events (download_driver download_failing_env
                \<lparr>driver_filename = ''chromedriver'', link_path = ''/usr/local/bin''\<rparr>
                ''/tmp/drivers'' None example_world)) = []"
  by (simp add: download_failing_env_def failing_env_def example_env_def example_world_def
      download_driver_def Let_def truthy_def log_def emit_def)

end
